theory Spec2Isabelle
  imports Complex_Main
begin

section \<open>A recursive path tracer: PathTracing.h\<close>

text \<open>
  The header \<^verbatim>\<open>PathTracing.h\<close> holds the sampling helpers, the reflection and refraction
  formulas, the recursive integrator \<^verbatim>\<open>castRay\<close> and the frame loop \<^verbatim>\<open>render\<close>.
  The C++ \<^verbatim>\<open>float\<close> is read as an exact real number: every statement below about
  lengths, dot products and equality of colours is a statement about the formulas the code
  evaluates, not about IEEE rounding. The one exception is \<^verbatim>\<open>refract\<close>, whose
  properties are about exact equality of results and are settled on a second reading of
  the function in binary32 arithmetic. The C++ \<^verbatim>\<open>int\<close> is read as a mathematical integer;
  the only increment that could leave the 32-bit range, \<^verbatim>\<open>depth + 1\<close>, is guarded by an
  explicit overflow branch.
\<close>

subsection \<open>Vectors\<close>

text \<open>
  Modelled from the spec: \<^verbatim>\<open>Geometry.h\<close> is not part of the sources. The spec describes
  \<^verbatim>\<open>Vec3f\<close> as three floating-point components with addition, scalar and component-wise
  multiplication, dot product, cross product and unary negation; a vector built from one
  scalar (\<^verbatim>\<open>Vec3f(0)\<close>, or the literal \<^verbatim>\<open>0\<close> converted to a vector) has that scalar in
  every component.
\<close>

datatype Vec3f = Vec3f (vec_x: real) (vec_y: real) (vec_z: real)

type_synonym Vec2f = "real \<times> real"

definition Vec3f_of :: "real \<Rightarrow> Vec3f" where
  "Vec3f_of xx = Vec3f xx xx xx"

instantiation Vec3f :: "{plus, minus, uminus, times}"
begin

definition plus_Vec3f :: "Vec3f \<Rightarrow> Vec3f \<Rightarrow> Vec3f" where
  "plus_Vec3f u v = Vec3f (vec_x u + vec_x v) (vec_y u + vec_y v) (vec_z u + vec_z v)"

definition minus_Vec3f :: "Vec3f \<Rightarrow> Vec3f \<Rightarrow> Vec3f" where
  "minus_Vec3f u v = Vec3f (vec_x u - vec_x v) (vec_y u - vec_y v) (vec_z u - vec_z v)"

definition uminus_Vec3f :: "Vec3f \<Rightarrow> Vec3f" where
  "uminus_Vec3f u = Vec3f (- vec_x u) (- vec_y u) (- vec_z u)"

definition times_Vec3f :: "Vec3f \<Rightarrow> Vec3f \<Rightarrow> Vec3f" where
  "times_Vec3f u v = Vec3f (vec_x u * vec_x v) (vec_y u * vec_y v) (vec_z u * vec_z v)"

instance ..

end

text \<open>
  Modelled from the spec: the product of a vector with a scalar (written \<^verbatim>\<open>r * v\<close> or
  \<^verbatim>\<open>v * r\<close> in the code) and the quotient \<^verbatim>\<open>v / r\<close>, both component by component.
\<close>

definition scalar_times :: "real \<Rightarrow> Vec3f \<Rightarrow> Vec3f" where
  "scalar_times r v = Vec3f (vec_x v * r) (vec_y v * r) (vec_z v * r)"

definition divide_by :: "Vec3f \<Rightarrow> real \<Rightarrow> Vec3f" where
  "divide_by v r = Vec3f (vec_x v / r) (vec_y v / r) (vec_z v / r)"

text \<open>Modelled from the spec: dot product, cross product and Euclidean length.\<close>

definition dotProduct :: "Vec3f \<Rightarrow> Vec3f \<Rightarrow> real" where
  "dotProduct u v = vec_x u * vec_x v + vec_y u * vec_y v + vec_z u * vec_z v"

definition crossProduct :: "Vec3f \<Rightarrow> Vec3f \<Rightarrow> Vec3f" where
  "crossProduct u v =
     Vec3f (vec_y u * vec_z v - vec_z u * vec_y v)
           (vec_z u * vec_x v - vec_x u * vec_z v)
           (vec_x u * vec_y v - vec_y u * vec_x v)"

definition norm_sq :: "Vec3f \<Rightarrow> real" where
  "norm_sq v = vec_x v * vec_x v + vec_y v * vec_y v + vec_z v * vec_z v"

definition length_vec :: "Vec3f \<Rightarrow> real" where
  "length_vec v = sqrt (norm_sq v)"

subsection \<open>Sampling and basis construction\<close>

text \<open>
  \<^verbatim>\<open>createCoordinateSystem\<close> writes its two results through reference parameters; the
  model returns the pair \<open>(Nt, Nb)\<close>.
\<close>

definition createCoordinateSystem :: "Vec3f \<Rightarrow> Vec3f \<times> Vec3f" where
  "createCoordinateSystem N =
     (let Nt = (if \<bar>vec_x N\<bar> > \<bar>vec_y N\<bar>
                then divide_by (Vec3f (vec_z N) 0 (- vec_x N))
                       (sqrt (vec_x N * vec_x N + vec_z N * vec_z N))
                else divide_by (Vec3f 0 (- vec_z N) (vec_y N))
                       (sqrt (vec_y N * vec_y N + vec_z N * vec_z N)));
          Nb = crossProduct N Nt
      in (Nt, Nb))"

text \<open>The divisor that the chosen branch of \<^verbatim>\<open>createCoordinateSystem\<close> normalises by.\<close>

definition createCoordinateSystem_denominator :: "Vec3f \<Rightarrow> real" where
  "createCoordinateSystem_denominator N =
     (if \<bar>vec_x N\<bar> > \<bar>vec_y N\<bar>
      then sqrt (vec_x N * vec_x N + vec_z N * vec_z N)
      else sqrt (vec_y N * vec_y N + vec_z N * vec_z N))"

definition uniformSampleHemisphere :: "real \<Rightarrow> real \<Rightarrow> Vec3f" where
  "uniformSampleHemisphere r1 r2 =
     (let sinTheta = sqrt (1 - r1 * r1);
          phi = 2 * pi * r2;
          x = sinTheta * cos phi;
          z = sinTheta * sin phi
      in Vec3f x r1 z)"

subsection \<open>Reflection and refraction\<close>

definition reflect :: "Vec3f \<Rightarrow> Vec3f \<Rightarrow> Vec3f" where
  "reflect I N = I - scalar_times (2 * dotProduct I N) N"

text \<open>
  \<^verbatim>\<open>refract\<close> clamps the cosine, then either negates it or swaps the two indices and
  flips the normal. The values of \<^verbatim>\<open>cosi\<close>, \<^verbatim>\<open>eta\<close>, \<^verbatim>\<open>n\<close> and \<^verbatim>\<open>k\<close> after that
  branch are named. This is the function in exact arithmetic, as \<^verbatim>\<open>castRay\<close> uses it
  below; a division by zero has no infinity to return here.
\<close>

definition refract_cosi :: "Vec3f \<Rightarrow> Vec3f \<Rightarrow> real" where
  "refract_cosi I N =
     (let cosi = min (max (- 1) (dotProduct I N)) 1
      in if cosi < 0 then - cosi else cosi)"

definition refract_eta :: "Vec3f \<Rightarrow> Vec3f \<Rightarrow> real \<Rightarrow> real" where
  "refract_eta I N ior =
     (let cosi = min (max (- 1) (dotProduct I N)) 1;
          etai = 1; etat = ior
      in if cosi < 0 then etai / etat else etat / etai)"

definition refract_n :: "Vec3f \<Rightarrow> Vec3f \<Rightarrow> Vec3f" where
  "refract_n I N =
     (let cosi = min (max (- 1) (dotProduct I N)) 1
      in if cosi < 0 then N else - N)"

definition refract_k :: "Vec3f \<Rightarrow> Vec3f \<Rightarrow> real \<Rightarrow> real" where
  "refract_k I N ior =
     (let cosi = refract_cosi I N; eta = refract_eta I N ior
      in 1 - eta * eta * (1 - cosi * cosi))"

definition refract :: "Vec3f \<Rightarrow> Vec3f \<Rightarrow> real \<Rightarrow> Vec3f" where
  "refract I N ior =
     (let cosi = refract_cosi I N;
          eta = refract_eta I N ior;
          n = refract_n I N;
          k = refract_k I N ior
      in if k < 0 then Vec3f_of 0
         else scalar_times eta I + scalar_times (eta * cosi - sqrt k) n)"

subsection \<open>Refraction in binary32 arithmetic\<close>

text \<open>
  Inside \<^verbatim>\<open>castRay\<close> the exact reading of \<^verbatim>\<open>refract\<close> above is used; no property
  proved below depends on the value it returns there. What the function itself returns
  is a matter of rounding, of division by zero and of infinities, so it is read a second
  time in IEEE 754 binary32 arithmetic: a value is a real number, an infinity or a NaN,
  and every operation rounds its exact result to the nearest binary32 value, ties to
  even, on its own (no fused multiply-add, no wider intermediate precision). The sign of
  a zero is not kept. In \<^verbatim>\<open>refract\<close> it could only be seen through \<^verbatim>\<open>1 / ior\<close> at
  \<open>ior = -0\<close>, where the quotient is squared before it decides anything.
\<close>

datatype binary32 = Finite real | PlusInfinity | MinusInfinity | NaN

definition round_to_even :: "real \<Rightarrow> int" where
  "round_to_even x =
     (let n = \<lfloor>x\<rfloor>; r = x - of_int n
      in if r < 1 / 2 then n else if 1 / 2 < r then n + 1 else if even n then n else n + 1)"

definition round32 :: "real \<Rightarrow> binary32" where
  "round32 x =
     (if x = 0 then Finite 0
      else
        let e = max \<lfloor>log 2 \<bar>x\<bar>\<rfloor> (- 126);
            ulp = 2 powi (e - 23);
            y = of_int (round_to_even (x / ulp)) * ulp
        in if 2 ^ 128 \<le> \<bar>y\<bar> then (if 0 < x then PlusInfinity else MinusInfinity)
           else Finite y)"

fun fneg :: "binary32 \<Rightarrow> binary32" where
  "fneg (Finite x) = Finite (- x)"
| "fneg PlusInfinity = MinusInfinity"
| "fneg MinusInfinity = PlusInfinity"
| "fneg NaN = NaN"

fun fadd :: "binary32 \<Rightarrow> binary32 \<Rightarrow> binary32" where
  "fadd NaN b = NaN"
| "fadd a NaN = NaN"
| "fadd PlusInfinity MinusInfinity = NaN"
| "fadd MinusInfinity PlusInfinity = NaN"
| "fadd PlusInfinity b = PlusInfinity"
| "fadd MinusInfinity b = MinusInfinity"
| "fadd a PlusInfinity = PlusInfinity"
| "fadd a MinusInfinity = MinusInfinity"
| "fadd (Finite x) (Finite y) = round32 (x + y)"

definition fsub :: "binary32 \<Rightarrow> binary32 \<Rightarrow> binary32" where
  "fsub a b = fadd a (fneg b)"

fun fmul :: "binary32 \<Rightarrow> binary32 \<Rightarrow> binary32" where
  "fmul NaN b = NaN"
| "fmul a NaN = NaN"
| "fmul (Finite x) (Finite y) = round32 (x * y)"
| "fmul (Finite x) PlusInfinity = (if x = 0 then NaN else if 0 < x then PlusInfinity else MinusInfinity)"
| "fmul (Finite x) MinusInfinity = (if x = 0 then NaN else if 0 < x then MinusInfinity else PlusInfinity)"
| "fmul PlusInfinity (Finite y) = (if y = 0 then NaN else if 0 < y then PlusInfinity else MinusInfinity)"
| "fmul MinusInfinity (Finite y) = (if y = 0 then NaN else if 0 < y then MinusInfinity else PlusInfinity)"
| "fmul PlusInfinity PlusInfinity = PlusInfinity"
| "fmul PlusInfinity MinusInfinity = MinusInfinity"
| "fmul MinusInfinity PlusInfinity = MinusInfinity"
| "fmul MinusInfinity MinusInfinity = PlusInfinity"

fun fdiv :: "binary32 \<Rightarrow> binary32 \<Rightarrow> binary32" where
  "fdiv NaN b = NaN"
| "fdiv a NaN = NaN"
| "fdiv (Finite x) (Finite y) =
     (if y = 0 then (if x = 0 then NaN else if 0 < x then PlusInfinity else MinusInfinity)
      else round32 (x / y))"
| "fdiv (Finite x) PlusInfinity = Finite 0"
| "fdiv (Finite x) MinusInfinity = Finite 0"
| "fdiv PlusInfinity (Finite y) = (if 0 \<le> y then PlusInfinity else MinusInfinity)"
| "fdiv MinusInfinity (Finite y) = (if 0 \<le> y then MinusInfinity else PlusInfinity)"
| "fdiv PlusInfinity b = NaN"
| "fdiv MinusInfinity b = NaN"

fun fsqrt :: "binary32 \<Rightarrow> binary32" where
  "fsqrt (Finite x) = (if x < 0 then NaN else round32 (sqrt x))"
| "fsqrt PlusInfinity = PlusInfinity"
| "fsqrt MinusInfinity = NaN"
| "fsqrt NaN = NaN"

fun flt :: "binary32 \<Rightarrow> binary32 \<Rightarrow> bool" where
  "flt NaN b = False"
| "flt a NaN = False"
| "flt (Finite x) (Finite y) = (x < y)"
| "flt (Finite x) PlusInfinity = True"
| "flt (Finite x) MinusInfinity = False"
| "flt PlusInfinity b = False"
| "flt MinusInfinity MinusInfinity = False"
| "flt MinusInfinity b = True"

text \<open>
  \<^verbatim>\<open>std::min\<close> and \<^verbatim>\<open>std::max\<close> return their first argument unless the comparison
  holds.
\<close>

definition fmin :: "binary32 \<Rightarrow> binary32 \<Rightarrow> binary32" where
  "fmin a b = (if flt b a then b else a)"

definition fmax :: "binary32 \<Rightarrow> binary32 \<Rightarrow> binary32" where
  "fmax a b = (if flt a b then b else a)"

text \<open>
  Modelled from the spec: the vector operations of the missing \<^verbatim>\<open>Geometry.h\<close> that
  \<^verbatim>\<open>refract\<close> uses, component by component, the dot product summed from left to right.
\<close>

datatype Vec3f32 = Vec3f32 binary32 binary32 binary32

fun dotProduct32 :: "Vec3f32 \<Rightarrow> Vec3f32 \<Rightarrow> binary32" where
  "dotProduct32 (Vec3f32 x y z) (Vec3f32 vx vy vz) = fadd (fadd (fmul x vx) (fmul y vy)) (fmul z vz)"

fun scalar_times32 :: "binary32 \<Rightarrow> Vec3f32 \<Rightarrow> Vec3f32" where
  "scalar_times32 r (Vec3f32 x y z) = Vec3f32 (fmul x r) (fmul y r) (fmul z r)"

fun plus32 :: "Vec3f32 \<Rightarrow> Vec3f32 \<Rightarrow> Vec3f32" where
  "plus32 (Vec3f32 x y z) (Vec3f32 vx vy vz) = Vec3f32 (fadd x vx) (fadd y vy) (fadd z vz)"

fun uminus32 :: "Vec3f32 \<Rightarrow> Vec3f32" where
  "uminus32 (Vec3f32 x y z) = Vec3f32 (fneg x) (fneg y) (fneg z)"

text \<open>
  \<^verbatim>\<open>refract\<close> once more, operation by operation. The literals \<^verbatim>\<open>1\<close> and \<^verbatim>\<open>0\<close> are
  converted to \<^verbatim>\<open>float\<close> exactly, and \<^verbatim>\<open>sqrtf\<close> is correctly rounded.
\<close>

definition refract32_cosi :: "Vec3f32 \<Rightarrow> Vec3f32 \<Rightarrow> binary32" where
  "refract32_cosi I N =
     (let cosi = fmin (fmax (Finite (- 1)) (dotProduct32 I N)) (Finite 1)
      in if flt cosi (Finite 0) then fneg cosi else cosi)"

definition refract32_eta :: "Vec3f32 \<Rightarrow> Vec3f32 \<Rightarrow> binary32 \<Rightarrow> binary32" where
  "refract32_eta I N ior =
     (let cosi = fmin (fmax (Finite (- 1)) (dotProduct32 I N)) (Finite 1);
          etai = Finite 1; etat = ior
      in if flt cosi (Finite 0) then fdiv etai etat else fdiv etat etai)"

definition refract32_n :: "Vec3f32 \<Rightarrow> Vec3f32 \<Rightarrow> Vec3f32" where
  "refract32_n I N =
     (let cosi = fmin (fmax (Finite (- 1)) (dotProduct32 I N)) (Finite 1)
      in if flt cosi (Finite 0) then N else uminus32 N)"

definition refract32_k :: "Vec3f32 \<Rightarrow> Vec3f32 \<Rightarrow> binary32 \<Rightarrow> binary32" where
  "refract32_k I N ior =
     (let cosi = refract32_cosi I N; eta = refract32_eta I N ior
      in fsub (Finite 1) (fmul (fmul eta eta) (fsub (Finite 1) (fmul cosi cosi))))"

definition refract32 :: "Vec3f32 \<Rightarrow> Vec3f32 \<Rightarrow> binary32 \<Rightarrow> Vec3f32" where
  "refract32 I N ior =
     (let cosi = refract32_cosi I N;
          eta = refract32_eta I N ior;
          n = refract32_n I N;
          k = refract32_k I N ior
      in if flt k (Finite 0) then Vec3f32 (Finite 0) (Finite 0) (Finite 0)
         else plus32 (scalar_times32 eta I)
                     (scalar_times32 (fsub (fmul eta cosi) (fsqrt k)) n))"

text \<open>
  A \<^verbatim>\<open>float\<close> variable holds a binary32 value: rounding leaves it as it is. Two inputs
  for concrete evaluation: an oblique incident direction and the normal \<open>(0, 1, 0)\<close>.
\<close>

fun binary32_value :: "binary32 \<Rightarrow> bool" where
  "binary32_value (Finite x) = (round32 x = Finite x)"
| "binary32_value PlusInfinity = False"
| "binary32_value MinusInfinity = False"
| "binary32_value NaN = False"

fun finite_value :: "binary32 \<Rightarrow> bool" where
  "finite_value (Finite x) = True"
| "finite_value PlusInfinity = False"
| "finite_value MinusInfinity = False"
| "finite_value NaN = False"

fun binary32_vector :: "Vec3f32 \<Rightarrow> bool" where
  "binary32_vector (Vec3f32 x y z) = (binary32_value x \<and> binary32_value y \<and> binary32_value z)"

fun finite_vector :: "Vec3f32 \<Rightarrow> bool" where
  "finite_vector (Vec3f32 x y z) = (finite_value x \<and> finite_value y \<and> finite_value z)"

definition oblique_I :: Vec3f32 where
  "oblique_I = Vec3f32 (Finite (13523797 / 16777216)) (Finite (- (4964421 / 8388608))) (Finite 0)"

definition up_N :: Vec3f32 where
  "up_N = Vec3f32 (Finite 0) (Finite 1) (Finite 0)"

subsection \<open>Materials, options and the collaborators of the integrator\<close>

text \<open>
  Modelled from the spec: \<^verbatim>\<open>FileLoader.h\<close> and \<^verbatim>\<open>Options.h\<close> are not part of the
  sources. A material is a record of four flags that do not exclude one another and of
  the coefficients the integrator reads; the emissive, diffuse and specular coefficients
  are colours (the spec's scenario uses \<^verbatim>\<open>ka=(1,1,1)\<close>). The fields \<^verbatim>\<open>ns.exponent\<close>,
  \<^verbatim>\<open>tr.ratio\<close> and \<^verbatim>\<open>ni.optical_density\<close> are flattened.
\<close>

record Material =
  self_luminous :: bool
  diffuse :: bool
  specular :: bool
  transparent :: bool
  ka :: Vec3f
  kd :: Vec3f
  ks :: Vec3f
  ns_exponent :: real
  tr_ratio :: real
  ni_optical_density :: real

record 'm Options =
  width :: int
  height :: int
  fov :: real
  cameraToWorld :: 'm
  maxDepth :: int
  backgroundColor :: Vec3f
  bias :: real

text \<open>
  The functions that \<^verbatim>\<open>castRay\<close> and \<^verbatim>\<open>render\<close> call but that live in the missing
  headers are parameters of the model. The scene is passed by non-constant reference, so
  \<open>intersect\<close> takes the scene and returns it, possibly changed, with the hit record
  (distance, index, uv, object) when there is a hit. \<open>getSurfaceProperties\<close> returns the
  values of its output parameters (normal, texture coordinates, colour, material
  pointer, \<open>None\<close> for a null pointer). \<open>distribution\<close> draws one number from the global
  generator and returns the generator advanced.
\<close>

record ('s, 'g, 'obj, 'm) Externals =
  intersect :: "'s \<Rightarrow> Vec3f \<Rightarrow> Vec3f \<Rightarrow> (real \<times> int \<times> Vec2f \<times> 'obj) option \<times> 's"
  getSurfaceProperties :: "'obj \<Rightarrow> Vec3f \<Rightarrow> Vec3f \<Rightarrow> int \<Rightarrow> Vec2f \<Rightarrow> Vec3f \<times> Vec2f \<times> Vec3f \<times> Material option"
  distribution :: "'g \<Rightarrow> real \<times> 'g"
  normalize_vec :: "Vec3f \<Rightarrow> Vec3f"
  pow :: "real \<Rightarrow> real \<Rightarrow> real"
  multVecMatrix :: "'m \<Rightarrow> Vec3f \<Rightarrow> Vec3f"
  multDirMatrix :: "'m \<Rightarrow> Vec3f \<Rightarrow> Vec3f"

text \<open>
  What the C++ leaves undefined is an error value: dereferencing a null material, signed
  overflow of \<^verbatim>\<open>depth + 1\<close>, and a write past the end of the pixel buffer. A result is
  \<open>None\<close> when the call did not return within the available stack frames.
\<close>

datatype error = NullMaterial | SignedOverflow | BufferOverrun

definition bind_result :: "(error + 'a) option \<Rightarrow> ('a \<Rightarrow> (error + 'b) option) \<Rightarrow> (error + 'b) option" where
  "bind_result r f = (case r of None \<Rightarrow> None | Some (Inl e) \<Rightarrow> Some (Inl e) | Some (Inr a) \<Rightarrow> f a)"

subsection \<open>The integrator\<close>

text \<open>
  The sample loop of the diffuse branch, \<^verbatim>\<open>for (int n = 0; n < N; ++n)\<close>. The argument
  \<open>cast\<close> stands for the recursive call \<^verbatim>\<open>castRay(hitPoint, _, scene, options, depth + 1)\<close>.
\<close>

function diffuse_loop ::
  "('s, 'g, 'obj, 'm) Externals \<Rightarrow> (Vec3f \<Rightarrow> 's \<Rightarrow> 'g \<Rightarrow> (error + Vec3f \<times> 's \<times> 'g) option) \<Rightarrow>
   Vec3f \<Rightarrow> Vec3f \<Rightarrow> Vec3f \<Rightarrow> real \<Rightarrow> int \<Rightarrow> int \<Rightarrow> Vec3f \<Rightarrow> 's \<Rightarrow> 'g \<Rightarrow>
   (error + Vec3f \<times> 's \<times> 'g) option" where
  "diffuse_loop ext cast hitNormal Nt Nb pdf N n indirectLigthing scene generator =
     (if n < N then
        (case distribution ext generator of (r1, generator) \<Rightarrow>
         case distribution ext generator of (r2, generator) \<Rightarrow>
           let sample = uniformSampleHemisphere r1 r2;
               sampleWorld = Vec3f
                 (vec_x sample * vec_x Nb + vec_y sample * vec_x hitNormal + vec_z sample * vec_x Nt)
                 (vec_x sample * vec_y Nb + vec_y sample * vec_y hitNormal + vec_z sample * vec_y Nt)
                 (vec_x sample * vec_z Nb + vec_y sample * vec_z hitNormal + vec_z sample * vec_z Nt)
           in (case cast sampleWorld scene generator of
                 None \<Rightarrow> None
               | Some (Inl e) \<Rightarrow> Some (Inl e)
               | Some (Inr (radiance, scene, generator)) \<Rightarrow>
                   diffuse_loop ext cast hitNormal Nt Nb pdf N (n + 1)
                     (indirectLigthing + divide_by (scalar_times r1 radiance) pdf) scene generator))
      else Some (Inr (indirectLigthing, scene, generator)))"
  by pat_completeness auto
termination
  by (relation "measure (\<lambda>(ext, cast, hitNormal, Nt, Nb, pdf, N, n, rest). nat (N - n))") auto

declare diffuse_loop.simps [simp del]

definition castRay_diffuse ::
  "('s, 'g, 'obj, 'm) Externals \<Rightarrow> (Vec3f \<Rightarrow> 's \<Rightarrow> 'g \<Rightarrow> (error + Vec3f \<times> 's \<times> 'g) option) \<Rightarrow>
   Vec3f \<Rightarrow> Material \<Rightarrow> Vec3f \<Rightarrow> 's \<Rightarrow> 'g \<Rightarrow> (error + Vec3f \<times> 's \<times> 'g) option" where
  "castRay_diffuse ext cast hitNormal m hitColor scene generator =
     (let indirectLigthing = Vec3f_of 0;
          N = 128
      in case createCoordinateSystem hitNormal of (Nt, Nb) \<Rightarrow>
         let pdf = 1 / (2 * pi)
         in bind_result (diffuse_loop ext cast hitNormal Nt Nb pdf N 0 indirectLigthing scene generator)
              (\<lambda>(indirectLigthing, scene, generator).
                 let indirectLigthing = divide_by indirectLigthing (of_int N)
                 in Some (Inr (hitColor + indirectLigthing * kd m, scene, generator))))"

definition castRay_specular ::
  "('s, 'g, 'obj, 'm) Externals \<Rightarrow> (Vec3f \<Rightarrow> 's \<Rightarrow> 'g \<Rightarrow> (error + Vec3f \<times> 's \<times> 'g) option) \<Rightarrow>
   Vec3f \<Rightarrow> Vec3f \<Rightarrow> Material \<Rightarrow> Vec3f \<Rightarrow> 's \<Rightarrow> 'g \<Rightarrow>
   (error + Vec3f \<times> 's \<times> 'g) option" where
  "castRay_specular ext cast dir hitNormal m hitColor scene generator =
     (let Reflect = normalize_vec ext (reflect dir hitNormal)
      in bind_result (cast Reflect scene generator)
           (\<lambda>(lightIntensity, scene, generator).
              let cosineAlpha = dotProduct Reflect (- dir)
              in Some (Inr (hitColor + scalar_times (pow ext cosineAlpha (ns_exponent m)) (lightIntensity * ks m),
                            scene, generator))))"

definition castRay_transparent ::
  "('s, 'g, 'obj, 'm) Externals \<Rightarrow> (Vec3f \<Rightarrow> 's \<Rightarrow> 'g \<Rightarrow> (error + Vec3f \<times> 's \<times> 'g) option) \<Rightarrow>
   'm Options \<Rightarrow> Vec3f \<Rightarrow> Vec3f \<Rightarrow> Material \<Rightarrow> Vec3f \<Rightarrow> 's \<Rightarrow> 'g \<Rightarrow>
   (error + Vec3f \<times> 's \<times> 'g) option" where
  "castRay_transparent ext cast options dir hitNormal m hitColor scene generator =
     (let kr = tr_ratio m;
          outside = (dotProduct dir hitNormal < 0);
          bias_offset = scalar_times (bias options) hitNormal;
          refractionDirection = normalize_vec ext (refract dir hitNormal (ni_optical_density m))
      in bind_result (cast refractionDirection scene generator)
           (\<lambda>(refractionColor, scene, generator).
              let reflectionDirection = normalize_vec ext (reflect dir hitNormal)
              in bind_result (cast reflectionDirection scene generator)
                   (\<lambda>(reflectionColor, scene, generator).
                      Some (Inr (hitColor + (scalar_times kr reflectionColor
                                              + scalar_times (1 - kr) refractionColor),
                                 scene, generator)))))"

text \<open>
  \<^verbatim>\<open>castRay\<close>. The first argument after the collaborators is the number of stack frames
  still available: a call needs one, and each recursive call is made with one fewer.
  With none left the call does not return (\<open>None\<close>). The three material blocks run in
  the order of the source, each adding to \<^verbatim>\<open>hitColor\<close>.
\<close>

fun castRay ::
  "('s, 'g, 'obj, 'm) Externals \<Rightarrow> nat \<Rightarrow> Vec3f \<Rightarrow> Vec3f \<Rightarrow> 's \<Rightarrow> 'm Options \<Rightarrow> int \<Rightarrow> 'g \<Rightarrow>
   (error + Vec3f \<times> 's \<times> 'g) option" where
  "castRay ext 0 orig dir scene options depth generator = None"
| "castRay ext (Suc fuel) orig dir scene options depth generator =
     (if depth > maxDepth options then Some (Inr (backgroundColor options, scene, generator))
      else
        let hitColor = backgroundColor options
        in (case intersect ext scene orig dir of
              (None, scene) \<Rightarrow> Some (Inr (hitColor, scene, generator))
            | (Some (tnear, index, uv, hitObject), scene) \<Rightarrow>
                (let hitPoint = orig + scalar_times tnear dir
                 in case getSurfaceProperties ext hitObject hitPoint dir index uv of
                      (hitNormal, hitTexCoordinates, Color, None) \<Rightarrow> Some (Inl NullMaterial)
                    | (hitNormal, hitTexCoordinates, Color, Some m) \<Rightarrow>
                        if self_luminous m then Some (Inr (ka m * Color, scene, generator))
                        else
                          let cast = (\<lambda>dir' scene' generator'.
                                        if depth = 2147483647 then Some (Inl SignedOverflow)
                                        else castRay ext fuel hitPoint dir' scene' options (depth + 1) generator')
                          in bind_result
                               (if diffuse m
                                then castRay_diffuse ext cast hitNormal m hitColor scene generator
                                else Some (Inr (hitColor, scene, generator)))
                               (\<lambda>(hitColor, scene, generator).
                                  bind_result
                                    (if specular m
                                     then castRay_specular ext cast dir hitNormal m hitColor scene generator
                                     else Some (Inr (hitColor, scene, generator)))
                                    (\<lambda>(hitColor, scene, generator).
                                       if transparent m
                                       then castRay_transparent ext cast options dir hitNormal m
                                              hitColor scene generator
                                       else Some (Inr (hitColor, scene, generator)))))))"

subsection \<open>The frame loop\<close>

text \<open>
  The pixel buffer is a list and the moving pointer \<^verbatim>\<open>pixels\<close> an index into it; a
  write at an index outside the list is the error \<open>BufferOverrun\<close>. The inner loop runs
  over the columns \<^verbatim>\<open>i\<close> of row \<^verbatim>\<open>j\<close>, the outer loop over the rows.
\<close>

function render_columns ::
  "('s, 'g, 'obj, 'm) Externals \<Rightarrow> nat \<Rightarrow> 'm Options \<Rightarrow> real \<Rightarrow> real \<Rightarrow> Vec3f \<Rightarrow> int \<Rightarrow> int \<Rightarrow>
   's \<Rightarrow> Vec3f list \<Rightarrow> nat \<Rightarrow> 'g \<Rightarrow> (error + 's \<times> Vec3f list \<times> nat \<times> 'g) option" where
  "render_columns ext fuel options scale imageAspectRatio orig j i scene buffer pixels generator =
     (if i < width options then
        let x = (2 * (of_int i + 0.5) / of_int (width options) - 1) * imageAspectRatio * scale;
            y = (1 - 2 * (of_int j + 0.5) / of_int (height options)) * scale;
            dir = normalize_vec ext (multDirMatrix ext (cameraToWorld options) (Vec3f x y (- 1)))
        in bind_result (castRay ext fuel orig dir scene options 0 generator)
             (\<lambda>(color, scene, generator).
                if pixels < length buffer
                then render_columns ext fuel options scale imageAspectRatio orig j (i + 1)
                       scene (buffer[pixels := color]) (pixels + 1) generator
                else Some (Inl BufferOverrun))
      else Some (Inr (scene, buffer, pixels, generator)))"
  by pat_completeness auto
termination
  by (relation "measure (\<lambda>(ext, fuel, options, scale, imageAspectRatio, orig, j, i, rest).
                           nat (width options - i))") auto

declare render_columns.simps [simp del]

function render_rows ::
  "('s, 'g, 'obj, 'm) Externals \<Rightarrow> nat \<Rightarrow> 'm Options \<Rightarrow> real \<Rightarrow> real \<Rightarrow> Vec3f \<Rightarrow> int \<Rightarrow>
   's \<Rightarrow> Vec3f list \<Rightarrow> nat \<Rightarrow> 'g \<Rightarrow> (error + 's \<times> Vec3f list \<times> nat \<times> 'g) option" where
  "render_rows ext fuel options scale imageAspectRatio orig j scene buffer pixels generator =
     (if j < height options then
        bind_result
          (render_columns ext fuel options scale imageAspectRatio orig j 0 scene buffer pixels generator)
          (\<lambda>(scene, buffer, pixels, generator).
             render_rows ext fuel options scale imageAspectRatio orig (j + 1) scene buffer pixels generator)
      else Some (Inr (scene, buffer, pixels, generator)))"
  by pat_completeness auto
termination
  by (relation "measure (\<lambda>(ext, fuel, options, scale, imageAspectRatio, orig, j, rest).
                           nat (height options - j))") auto

declare render_rows.simps [simp del]

definition render ::
  "('s, 'g, 'obj, 'm) Externals \<Rightarrow> nat \<Rightarrow> 'm Options \<Rightarrow> 's \<Rightarrow> Vec3f list \<Rightarrow> 'g \<Rightarrow>
   (error + 's \<times> Vec3f list \<times> 'g) option" where
  "render ext fuel options scene buffer generator =
     (let scale = tan (fov options * 0.5 * pi / 180);
          imageAspectRatio = of_int (width options) / of_int (height options);
          orig = multVecMatrix ext (cameraToWorld options) (Vec3f_of 0)
      in bind_result
           (render_rows ext fuel options scale imageAspectRatio orig 0 scene buffer 0 generator)
           (\<lambda>(scene, buffer, pixels, generator). Some (Inr (scene, buffer, generator))))"

subsection \<open>The frame loop, as the spec words it\<close>

text \<open>
  The spec describes \<^verbatim>\<open>render\<close> as: for each pixel, row-major, top-to-bottom and
  left-to-right, generate the primary ray, invoke the integrator at depth 0 and store the
  colour. \<open>primary_ray\<close> is the direction computed for column \<open>i\<close> of row \<open>j\<close>,
  \<open>row_major\<close> lists the pixels in that order, and \<open>trace_pixels\<close> casts one ray per
  listed pixel, each call starting from the scene and generator the previous call left.
\<close>

definition primary_ray :: "('s, 'g, 'obj, 'm) Externals \<Rightarrow> 'm Options \<Rightarrow> int \<Rightarrow> int \<Rightarrow> Vec3f" where
  "primary_ray ext options i j =
     (let scale = tan (fov options * 0.5 * pi / 180);
          imageAspectRatio = of_int (width options) / of_int (height options);
          x = (2 * (of_int i + 0.5) / of_int (width options) - 1) * imageAspectRatio * scale;
          y = (1 - 2 * (of_int j + 0.5) / of_int (height options)) * scale
      in normalize_vec ext (multDirMatrix ext (cameraToWorld options) (Vec3f x y (- 1))))"

definition row_major :: "int \<Rightarrow> int \<Rightarrow> (int \<times> int) list" where
  "row_major w h = concat (map (\<lambda>j. map (\<lambda>i. (i, j)) [0..w - 1]) [0..h - 1])"

fun trace_pixels ::
  "('s, 'g, 'obj, 'm) Externals \<Rightarrow> nat \<Rightarrow> 'm Options \<Rightarrow> Vec3f \<Rightarrow> (int \<times> int) list \<Rightarrow> 's \<Rightarrow> 'g \<Rightarrow>
   (error + Vec3f list \<times> 's \<times> 'g) option" where
  "trace_pixels ext fuel options orig [] scene generator = Some (Inr ([], scene, generator))"
| "trace_pixels ext fuel options orig ((i, j) # rest) scene generator =
     bind_result (castRay ext fuel orig (primary_ray ext options i j) scene options 0 generator)
       (\<lambda>(color, scene, generator).
          bind_result (trace_pixels ext fuel options orig rest scene generator)
            (\<lambda>(colors, scene, generator). Some (Inr (color # colors, scene, generator))))"


subsection \<open>A small scene for concrete evaluation\<close>

text \<open>
  Three materials and one instance of the collaborators, used to run the model on
  concrete rays. The scene state counts the intersection queries made so far. A ray
  pointing down (negative z) hits a diffuse floor whose normal points up; a ray pointing
  to negative y leaves the scene; a ray pointing to positive y hits a surface with no
  flag set; every other ray hits the lamp. The generator is a counter: its first draw is
  one half, every later draw is zero. The camera transform is the identity.
\<close>

definition lamp :: Material where
  "lamp = \<lparr>self_luminous = True, diffuse = False, specular = False, transparent = False,
           ka = Vec3f 1 1 1, kd = Vec3f 0 0 0, ks = Vec3f 0 0 0,
           ns_exponent = 1, tr_ratio = 0, ni_optical_density = 1\<rparr>"

definition floor_material :: Material where
  "floor_material = \<lparr>self_luminous = False, diffuse = True, specular = False, transparent = False,
           ka = Vec3f 0 0 0, kd = Vec3f 1 1 1, ks = Vec3f 0 0 0,
           ns_exponent = 1, tr_ratio = 0, ni_optical_density = 1\<rparr>"

definition inert :: Material where
  "inert = \<lparr>self_luminous = False, diffuse = False, specular = False, transparent = False,
           ka = Vec3f 0 0 0, kd = Vec3f 0 0 0, ks = Vec3f 0 0 0,
           ns_exponent = 1, tr_ratio = 0, ni_optical_density = 1\<rparr>"

definition demo_externals :: "(nat, nat, Material, unit) Externals" where
  "demo_externals = \<lparr>
     intersect = (\<lambda>scene orig dir.
        (if vec_z dir < 0 then Some (1, 0, (0, 0), floor_material)
         else if vec_y dir < 0 then None
         else if 0 < vec_y dir then Some (1, 0, (0, 0), inert)
         else Some (1, 0, (0, 0), lamp), Suc scene)),
     getSurfaceProperties = (\<lambda>hitObject hitPoint dir index uv.
        (Vec3f 0 0 1, (0, 0), Vec3f 1 1 1, Some hitObject)),
     distribution = (\<lambda>generator. (if generator = 0 then 1 / 2 else 0, Suc generator)),
     normalize_vec = (\<lambda>v. divide_by v (length_vec v)),
     pow = (\<lambda>a b. a powr b),
     multVecMatrix = (\<lambda>M v. v),
     multDirMatrix = (\<lambda>M v. v)\<rparr>"

definition demo_options :: "unit Options" where
  "demo_options = \<lparr>width = 2, height = 1, fov = 90, cameraToWorld = (),
                    maxDepth = 1, backgroundColor = Vec3f (1 / 5) (1 / 5) (1 / 5), bias = 1 / 10000\<rparr>"

text \<open>
  The recursive call that the diffuse block of a primary ray makes in this scene: a ray
  from the hit point at depth 1.
\<close>

definition demo_cast :: "nat \<Rightarrow> Vec3f \<Rightarrow> Vec3f \<Rightarrow> nat \<Rightarrow> nat \<Rightarrow> (error + Vec3f \<times> nat \<times> nat) option" where
  "demo_cast f hp = (\<lambda>dir' scene' generator'.
      castRay demo_externals (Suc f) hp dir' scene' demo_options 1 generator')"


text \<open>
  A second scene, in which every ray hits a mirror, and options with the largest
  \<^verbatim>\<open>maxDepth\<close> an \<^verbatim>\<open>int\<close> can hold.
\<close>

definition mirror :: Material where
  "mirror = \<lparr>self_luminous = False, diffuse = False, specular = True, transparent = False,
           ka = Vec3f 0 0 0, kd = Vec3f 0 0 0, ks = Vec3f 1 1 1,
           ns_exponent = 1, tr_ratio = 0, ni_optical_density = 1\<rparr>"

definition mirror_externals :: "(nat, nat, Material, unit) Externals" where
  "mirror_externals = demo_externals\<lparr>intersect := (\<lambda>scene orig dir. (Some (1, 0, (0, 0), mirror), Suc scene))\<rparr>"

definition deepest_options :: "unit Options" where
  "deepest_options = demo_options\<lparr>maxDepth := 2147483647\<rparr>"

text \<open>A third scene, whose surfaces leave the material pointer null.\<close>

definition null_material_externals :: "(nat, nat, Material, unit) Externals" where
  "null_material_externals = demo_externals\<lparr>getSurfaceProperties :=
     (\<lambda>hitObject hitPoint dir index uv. (Vec3f 0 0 1, (0, 0), Vec3f 1 1 1, None))\<rparr>"

text \<open>A call returns a colour when it returns, and returns no error value.\<close>

definition returns_colour :: "(error + Vec3f \<times> 's \<times> 'g) option \<Rightarrow> bool" where
  "returns_colour r = (case r of Some (Inr x) \<Rightarrow> True | Some (Inl e) \<Rightarrow> False | None \<Rightarrow> False)"

section \<open>Properties\<close>

lemmas vec_defs = Vec3f_of_def plus_Vec3f_def minus_Vec3f_def uminus_Vec3f_def
  times_Vec3f_def scalar_times_def divide_by_def dotProduct_def crossProduct_def norm_sq_def length_vec_def

subsection \<open>The depth limit\<close>

text \<open>
  C1. For every origin, direction, scene, options and state of the collaborators, a call
  of \<^verbatim>\<open>castRay\<close> with \<open>depth > maxDepth\<close> returns exactly the background colour. The
  scene and the generator come back as they went in, whatever \<open>intersect\<close> does to the
  scene when it is queried: no intersection query was made. One stack frame is enough.
\<close>

theorem castRay_beyond_maxDepth:
  "maxDepth options < depth \<Longrightarrow>
   castRay ext (Suc fuel) orig dir scene options depth generator
     = Some (Inr (backgroundColor options, scene, generator))"
  by simp

theorem castRay_beyond_maxDepth_witness:
  "maxDepth demo_options < 5 \<and>
   castRay demo_externals (Suc 0) (Vec3f 0 0 0) (Vec3f 0 0 (- 1)) 7 demo_options 5 3
     = Some (Inr (Vec3f (1 / 5) (1 / 5) (1 / 5), 7, 3))"
  using castRay_beyond_maxDepth [of demo_options 5 demo_externals 0 "Vec3f 0 0 0" "Vec3f 0 0 (- 1)" 7 3]
  by (simp add: demo_options_def)

subsection \<open>Termination\<close>

lemma bind_result_cong:
  "r = r' \<Longrightarrow> (\<And>a. f a = g a) \<Longrightarrow> bind_result r f = bind_result r' g"
  by (simp add: bind_result_def split: option.splits sum.splits)

lemma bind_result_simps:
  "bind_result None f = None"
  "bind_result (Some (Inl e)) f = Some (Inl e)"
  "bind_result (Some (Inr a)) f = f a"
  by (simp_all add: bind_result_def)

lemma returns_colour_simps:
  "returns_colour None = False"
  "returns_colour (Some (Inl e)) = False"
  "returns_colour (Some (Inr x)) = True"
  by (simp_all add: returns_colour_def)

lemma bind_colour:
  "returns_colour r \<Longrightarrow> (\<And>a. returns_colour (f a)) \<Longrightarrow> returns_colour (bind_result r f)"
proof -
  assume r: "returns_colour r" and f: "\<And>a. returns_colour (f a)"
  from r obtain a where "r = Some (Inr a)"
    by (auto simp: returns_colour_def split: option.splits sum.splits)
  then show ?thesis using f by (simp add: bind_result_def)
qed

lemma diffuse_loop_colour:
  assumes "\<forall>d s g. returns_colour (cast d s g)"
  shows "returns_colour (diffuse_loop ext cast hitNormal Nt Nb pdf N n acc scene generator)"
  using assms
proof (induction ext cast hitNormal Nt Nb pdf N n acc scene generator rule: diffuse_loop.induct)
  case (1 ext cast hitNormal Nt Nb pdf N n indirectLigthing scene generator)
  show ?case
  proof (cases "n < N")
    case False
    then show ?thesis by (subst diffuse_loop.simps) (simp add: returns_colour_simps)
  next
    case True
    obtain r1 g1 where d1: "distribution ext generator = (r1, g1)"
      by (cases "distribution ext generator")
    obtain r2 g2 where d2: "distribution ext g1 = (r2, g2)"
      by (cases "distribution ext g1")
    define sw where "sw = (let sample = uniformSampleHemisphere r1 r2 in Vec3f
                 (vec_x sample * vec_x Nb + vec_y sample * vec_x hitNormal + vec_z sample * vec_x Nt)
                 (vec_x sample * vec_y Nb + vec_y sample * vec_y hitNormal + vec_z sample * vec_y Nt)
                 (vec_x sample * vec_z Nb + vec_y sample * vec_z hitNormal + vec_z sample * vec_z Nt))"
    have "returns_colour (cast sw scene g2)" using "1.prems" by simp
    then obtain c s' g' where Some: "cast sw scene g2 = Some (Inr (c, s', g'))"
      by (auto simp: returns_colour_def split: option.splits sum.splits)
    have "returns_colour (diffuse_loop ext cast hitNormal Nt Nb pdf N (n + 1)
                (indirectLigthing + divide_by (scalar_times r1 c) pdf) s' g')"
      using Some
      by (intro "1.IH"[OF True d1[symmetric] d2[symmetric] refl refl _ refl refl refl "1.prems"])
         (simp add: sw_def Let_def)
    then show ?thesis
      by (subst diffuse_loop.simps)
         (simp add: True d1 d2 Let_def Some sw_def[unfolded Let_def, symmetric])
  qed
qed

lemma castRay_diffuse_colour:
  "\<forall>d s g. returns_colour (cast d s g) \<Longrightarrow>
   returns_colour (castRay_diffuse ext cast hitNormal m hitColor scene generator)"
  unfolding castRay_diffuse_def Let_def
  by (simp add: bind_colour diffuse_loop_colour returns_colour_simps split: prod.splits)

lemma castRay_specular_colour:
  "\<forall>d s g. returns_colour (cast d s g) \<Longrightarrow>
   returns_colour (castRay_specular ext cast dir hitNormal m hitColor scene generator)"
  unfolding castRay_specular_def Let_def
  by (simp add: bind_colour returns_colour_simps split: prod.splits)

lemma castRay_transparent_colour:
  "\<forall>d s g. returns_colour (cast d s g) \<Longrightarrow>
   returns_colour (castRay_transparent ext cast options dir hitNormal m hitColor scene generator)"
  unfolding castRay_transparent_def Let_def
  by (simp add: bind_colour returns_colour_simps split: prod.splits)

lemma castRay_colour:
  assumes "maxDepth options < 2147483647"
    and "\<forall>hitObject hitPoint dir index uv.
           snd (snd (snd (getSurfaceProperties ext hitObject hitPoint dir index uv))) \<noteq> None"
  shows "nat (maxDepth options + 1 - depth) < fuel \<Longrightarrow>
     returns_colour (castRay ext fuel orig dir scene options depth generator)"
proof (induction fuel arbitrary: orig dir scene depth generator)
  case 0
  then show ?case by simp
next
  case (Suc fuel)
  show ?case
  proof (cases "maxDepth options < depth")
    case True
    then show ?thesis by (simp add: returns_colour_simps)
  next
    case False
    then have "nat (maxDepth options + 1 - (depth + 1)) < fuel" using Suc.prems by simp
    then have ih: "\<And>orig d s g. returns_colour (castRay ext fuel orig d s options (depth + 1) g)"
      using Suc.IH by simp
    have nd: "depth \<noteq> 2147483647" using False assms(1) by simp
    have ct: "\<And>hp. \<forall>d s g. returns_colour (if depth = 2147483647 then Some (Inl SignedOverflow)
                      else castRay ext fuel hp d s options (depth + 1) g)"
      using ih nd by simp
    have mat: "\<And>hitObject hitPoint dir index uv a b c.
        getSurfaceProperties ext hitObject hitPoint dir index uv \<noteq> (a, b, c, None)"
      using assms(2) by (metis snd_conv)
    show ?thesis
      using False
      by (simp add: Let_def bind_colour ct mat returns_colour_simps
            castRay_diffuse_colour castRay_specular_colour castRay_transparent_colour
            split: prod.splits option.splits)
  qed
qed

text \<open>
  C2, as the spec states it, says that \<^verbatim>\<open>castRay\<close> terminates on every input with
  \<open>depth \<ge> 0\<close>. With \<open>maxDepth = 2147483647\<close> the guard \<open>depth > maxDepth\<close> can never
  hold; a call at \<open>depth = 2147483647\<close> that hits a mirror evaluates \<open>depth + 1\<close>, which
  overflows, so the call does not return a colour, however many stack frames it has.
  Nor does a call whose hit leaves the material pointer null: it dereferences it.
\<close>

theorem castRay_overflows_at_INT_MAX:
  "(0::int) \<le> 2147483647 \<and>
   nat (maxDepth deepest_options + 1 - 2147483647) < 2 \<and>
   castRay mirror_externals 2 (Vec3f 0 0 0) (Vec3f 0 0 (- 1)) 0 deepest_options 2147483647 0
     = Some (Inl SignedOverflow) \<and>
   castRay mirror_externals 3 (Vec3f 0 0 0) (Vec3f 0 0 (- 1)) 0 deepest_options 2147483647 0
     = Some (Inl SignedOverflow) \<and>
   nat (maxDepth demo_options + 1 - 0) < 3 \<and>
   castRay null_material_externals 3 (Vec3f 0 0 0) (Vec3f 0 0 (- 1)) 0 demo_options 0 0
     = Some (Inl NullMaterial)"
proof -
  have two: "(2::nat) = Suc (Suc 0)" and three: "(3::nat) = Suc (Suc (Suc 0))" by simp_all
  have o: "maxDepth deepest_options = 2147483647" by (simp add: deepest_options_def)
  have i: "\<And>s orig dir. intersect mirror_externals s orig dir = (Some (1, 0, (0, 0), mirror), Suc s)"
    by (simp add: mirror_externals_def)
  have p: "\<And>obj hp dir index uv. getSurfaceProperties mirror_externals obj hp dir index uv
              = (Vec3f 0 0 1, (0, 0), Vec3f 1 1 1, Some obj)"
    by (simp add: mirror_externals_def demo_externals_def)
  have m: "\<not> self_luminous mirror" "\<not> diffuse mirror" "specular mirror" "\<not> transparent mirror"
    by (simp_all add: mirror_def)
  have e: "\<And>f. castRay mirror_externals (Suc f) (Vec3f 0 0 0) (Vec3f 0 0 (- 1)) 0 deepest_options 2147483647 0
     = Some (Inl SignedOverflow)"
    by (simp add: o i p m Let_def castRay_specular_def bind_result_simps)
  have n: "castRay null_material_externals (Suc (Suc (Suc 0))) (Vec3f 0 0 0) (Vec3f 0 0 (- 1)) 0 demo_options 0 0
     = Some (Inl NullMaterial)"
    by (simp add: null_material_externals_def demo_externals_def demo_options_def Let_def)
  have d: "nat (maxDepth demo_options + 1 - 0) < 3" by (simp add: demo_options_def)
  show ?thesis unfolding two three using e n d by (simp add: o)
qed

text \<open>
  C2, amended. When \<open>maxDepth\<close> is below the largest \<^verbatim>\<open>int\<close> and every hit resolves a
  material, \<^verbatim>\<open>castRay\<close> returns a colour on every input: every recursive call is made at
  \<open>depth + 1\<close>, so a call at \<open>depth\<close> never has more than \<open>maxDepth + 1 - depth\<close> calls
  below it, and any number of stack frames beyond that bound is enough. The bound depends
  on \<open>maxDepth\<close> and \<open>depth\<close> alone, not on the scene, the materials or the random draws.
\<close>

theorem castRay_returns_colour_within_maxDepth:
  assumes "maxDepth options < 2147483647"
    and "\<forall>hitObject hitPoint dir index uv.
           snd (snd (snd (getSurfaceProperties ext hitObject hitPoint dir index uv))) \<noteq> None"
    and "nat (maxDepth options + 1 - depth) < fuel"
  shows "\<exists>color scene' generator'.
           castRay ext fuel orig dir scene options depth generator = Some (Inr (color, scene', generator'))"
proof -
  have "returns_colour (castRay ext fuel orig dir scene options depth generator)"
    using assms by (rule castRay_colour)
  then show ?thesis
    by (auto simp: returns_colour_def split: option.splits sum.splits)
qed

theorem castRay_returns_colour_within_maxDepth_witness:
  "maxDepth demo_options < 2147483647 \<and>
   (\<forall>hitObject hitPoint dir index uv.
      snd (snd (snd (getSurfaceProperties demo_externals hitObject hitPoint dir index uv))) \<noteq> None) \<and>
   nat (maxDepth demo_options + 1 - 0) < 3 \<and>
   (\<exists>color scene' generator'.
      castRay demo_externals 3 (Vec3f 0 0 0) (Vec3f 0 0 (- 1)) 0 demo_options 0 0
        = Some (Inr (color, scene', generator')))"
proof -
  have a: "maxDepth demo_options < 2147483647" by (simp add: demo_options_def)
  have b: "\<forall>hitObject hitPoint dir index uv.
      snd (snd (snd (getSurfaceProperties demo_externals hitObject hitPoint dir index uv))) \<noteq> None"
    by (simp add: demo_externals_def)
  have c: "nat (maxDepth demo_options + 1 - 0) < 3" by (simp add: demo_options_def)
  show ?thesis
    using castRay_returns_colour_within_maxDepth [OF a b c, of "Vec3f 0 0 0" "Vec3f 0 0 (- 1)" 0 0] a b c
    by blast
qed

subsection \<open>Emissive hits, misses and flagless hits\<close>

text \<open>
  C3. When the intersection query of \<^verbatim>\<open>castRay\<close> reports a hit and the material of the
  hit has \<open>self_luminous\<close> set, the call returns exactly \<open>ka * Color\<close>, whatever the other
  flags are. It makes no recursive call: a single stack frame is enough (\<open>fuel\<close> may be
  zero), and the generator comes back untouched.
\<close>

theorem castRay_self_luminous:
  assumes "depth \<le> maxDepth options"
    and "intersect ext scene orig dir = (Some (tnear, index, uv, hitObject), scene')"
    and "getSurfaceProperties ext hitObject (orig + scalar_times tnear dir) dir index uv
           = (hitNormal, hitTexCoordinates, Color, Some m)"
    and "self_luminous m"
  shows "castRay ext (Suc fuel) orig dir scene options depth generator
           = Some (Inr (ka m * Color, scene', generator))"
  using assms by (simp add: Let_def)

theorem castRay_self_luminous_witness:
  "0 \<le> maxDepth demo_options \<and>
   intersect demo_externals 0 (Vec3f 0 0 0) (Vec3f 1 0 0) = (Some (1, 0, (0, 0), lamp), 1) \<and>
   getSurfaceProperties demo_externals lamp (Vec3f 0 0 0 + scalar_times 1 (Vec3f 1 0 0)) (Vec3f 1 0 0) 0 (0, 0)
     = (Vec3f 0 0 1, (0, 0), Vec3f 1 1 1, Some lamp) \<and>
   self_luminous lamp \<and>
   castRay demo_externals (Suc 0) (Vec3f 0 0 0) (Vec3f 1 0 0) 0 demo_options 0 0
     = Some (Inr (Vec3f 1 1 1, 1, 0))"
proof -
  have a: "0 \<le> maxDepth demo_options" by (simp add: demo_options_def)
  have b: "intersect demo_externals 0 (Vec3f 0 0 0) (Vec3f 1 0 0) = (Some (1, 0, (0, 0), lamp), 1)"
    by (simp add: demo_externals_def)
  have c: "getSurfaceProperties demo_externals lamp (Vec3f 0 0 0 + scalar_times 1 (Vec3f 1 0 0))
             (Vec3f 1 0 0) 0 (0, 0) = (Vec3f 0 0 1, (0, 0), Vec3f 1 1 1, Some lamp)"
    by (simp add: demo_externals_def)
  have d: "self_luminous lamp" by (simp add: lamp_def)
  have e: "ka lamp * Vec3f 1 1 1 = Vec3f 1 1 1" by (simp add: lamp_def times_Vec3f_def)
  show ?thesis
    using castRay_self_luminous [OF a b c d, of 0 0] a b c d e by simp
qed

text \<open>
  C4. For a ray with \<open>depth \<le> maxDepth\<close>, \<^verbatim>\<open>castRay\<close> returns exactly the background colour
  when the intersection query reports no hit, and also when it reports a hit whose
  material has none of the four flags set.
\<close>

theorem castRay_background_on_miss_or_flagless:
  assumes "depth \<le> maxDepth options"
  shows "(intersect ext scene orig dir = (None, scene') \<longrightarrow>
            castRay ext (Suc fuel) orig dir scene options depth generator
              = Some (Inr (backgroundColor options, scene', generator)))
       \<and> (intersect ext scene orig dir = (Some (tnear, index, uv, hitObject), scene')
            \<and> getSurfaceProperties ext hitObject (orig + scalar_times tnear dir) dir index uv
                = (hitNormal, hitTexCoordinates, Color, Some m)
            \<and> \<not> self_luminous m \<and> \<not> diffuse m \<and> \<not> specular m \<and> \<not> transparent m \<longrightarrow>
            castRay ext (Suc fuel) orig dir scene options depth generator
              = Some (Inr (backgroundColor options, scene', generator)))"
  using assms by (simp add: Let_def bind_result_def)

theorem castRay_background_on_miss_or_flagless_witness:
  "0 \<le> maxDepth demo_options \<and>
   intersect demo_externals 0 (Vec3f 0 0 0) (Vec3f 0 (- 1) 0) = (None, 1) \<and>
   castRay demo_externals (Suc 0) (Vec3f 0 0 0) (Vec3f 0 (- 1) 0) 0 demo_options 0 0
     = Some (Inr (backgroundColor demo_options, 1, 0)) \<and>
   intersect demo_externals 0 (Vec3f 0 0 0) (Vec3f 0 1 0) = (Some (1, 0, (0, 0), inert), 1) \<and>
   getSurfaceProperties demo_externals inert (Vec3f 0 0 0 + scalar_times 1 (Vec3f 0 1 0)) (Vec3f 0 1 0) 0 (0, 0)
     = (Vec3f 0 0 1, (0, 0), Vec3f 1 1 1, Some inert) \<and>
   \<not> self_luminous inert \<and> \<not> diffuse inert \<and> \<not> specular inert \<and> \<not> transparent inert \<and>
   castRay demo_externals (Suc 0) (Vec3f 0 0 0) (Vec3f 0 1 0) 0 demo_options 0 0
     = Some (Inr (backgroundColor demo_options, 1, 0))"
proof -
  have a: "0 \<le> maxDepth demo_options" by (simp add: demo_options_def)
  have b: "intersect demo_externals 0 (Vec3f 0 0 0) (Vec3f 0 (- 1) 0) = (None, 1)"
    by (simp add: demo_externals_def)
  have c: "intersect demo_externals 0 (Vec3f 0 0 0) (Vec3f 0 1 0) = (Some (1, 0, (0, 0), inert), 1)"
    by (simp add: demo_externals_def)
  have d: "getSurfaceProperties demo_externals inert (Vec3f 0 0 0 + scalar_times 1 (Vec3f 0 1 0))
             (Vec3f 0 1 0) 0 (0, 0) = (Vec3f 0 0 1, (0, 0), Vec3f 1 1 1, Some inert)"
    by (simp add: demo_externals_def)
  have e: "\<not> self_luminous inert \<and> \<not> diffuse inert \<and> \<not> specular inert \<and> \<not> transparent inert"
    by (simp add: inert_def)
  have m1: "castRay demo_externals (Suc 0) (Vec3f 0 0 0) (Vec3f 0 (- 1) 0) 0 demo_options 0 0
     = Some (Inr (backgroundColor demo_options, 1, 0))"
    using castRay_background_on_miss_or_flagless
            [OF a, where ext = demo_externals and scene = 0 and orig = "Vec3f 0 0 0"
               and dir = "Vec3f 0 (- 1) 0" and scene' = 1 and fuel = 0 and generator = 0] b
    by simp
  have m2: "castRay demo_externals (Suc 0) (Vec3f 0 0 0) (Vec3f 0 1 0) 0 demo_options 0 0
     = Some (Inr (backgroundColor demo_options, 1, 0))"
    using castRay_background_on_miss_or_flagless
            [OF a, where ext = demo_externals and scene = 0 and orig = "Vec3f 0 0 0"
               and dir = "Vec3f 0 1 0" and scene' = 1 and fuel = 0 and generator = 0
               and tnear = 1 and index = 0 and uv = "(0, 0)" and hitObject = inert
               and hitNormal = "Vec3f 0 0 1" and hitTexCoordinates = "(0, 0)"
               and Color = "Vec3f 1 1 1" and m = inert] c d e
    by simp
  show ?thesis using a b c d e m1 m2 by simp
qed

subsection \<open>The local frame\<close>

lemma denominator_positive:
  assumes "length_vec N = 1"
  shows "0 < createCoordinateSystem_denominator N"
proof -
  obtain a b c where N: "N = Vec3f a b c" by (cases N)
  from assms have u: "a * a + b * b + c * c = 1" by (simp add: N vec_defs)
  show ?thesis
  proof (cases "\<bar>a\<bar> > \<bar>b\<bar>")
    case True
    then have "a \<noteq> 0" by auto
    then have "0 < a\<^sup>2" by simp
    then have "0 < a * a" by (simp only: power2_eq_square)
    moreover have "0 \<le> c * c" by simp
    ultimately have "0 < a * a + c * c" by linarith
    then show ?thesis using True by (simp add: createCoordinateSystem_denominator_def N)
  next
    case False
    have "0 < b * b + c * c"
    proof (cases "b = 0")
      case True
      with False have "a = 0" by auto
      with True u show ?thesis by simp
    next
      case False
      then have "0 < b\<^sup>2" by simp
      then have "0 < b * b" by (simp only: power2_eq_square)
      moreover have "0 \<le> c * c" by simp
      ultimately show ?thesis by linarith
    qed
    then show ?thesis using False by (simp add: createCoordinateSystem_denominator_def N)
  qed
qed

lemma cross_orthogonal_left: "dotProduct (crossProduct u v) u = 0"
  by (simp add: vec_defs algebra_simps)

lemma cross_orthogonal_right: "dotProduct v (crossProduct u v) = 0"
  by (simp add: vec_defs algebra_simps)

lemma cross_norm_sq:
  "norm_sq (crossProduct u v) = norm_sq u * norm_sq v - dotProduct u v * dotProduct u v"
proof -
  obtain a b c where u: "u = Vec3f a b c" by (cases u)
  obtain p q r where v: "v = Vec3f p q r" by (cases v)
  show ?thesis unfolding u v norm_sq_def crossProduct_def dotProduct_def Vec3f.sel by algebra
qed

lemma tangent_first_branch:
  "\<bar>vec_x N\<bar> > \<bar>vec_y N\<bar> \<Longrightarrow>
    fst (createCoordinateSystem N) =
      Vec3f (vec_z N / createCoordinateSystem_denominator N) 0
            (- vec_x N / createCoordinateSystem_denominator N)"
  by (simp add: createCoordinateSystem_def createCoordinateSystem_denominator_def Let_def divide_by_def)

lemma tangent_second_branch:
  "\<not> \<bar>vec_x N\<bar> > \<bar>vec_y N\<bar> \<Longrightarrow>
    fst (createCoordinateSystem N) =
      Vec3f 0 (- vec_z N / createCoordinateSystem_denominator N)
            (vec_y N / createCoordinateSystem_denominator N)"
  by (simp add: createCoordinateSystem_def createCoordinateSystem_denominator_def Let_def divide_by_def)

lemma quotient_unit:
  "(d::real) \<noteq> 0 \<Longrightarrow> d * d = p * p + q * q \<Longrightarrow> p / d * (p / d) + q / d * (q / d) = 1"
proof -
  assume d: "d \<noteq> 0" and e: "d * d = p * p + q * q"
  have "p / d * (p / d) + q / d * (q / d) = (p * p + q * q) / (d * d)"
    by (simp add: add_divide_distrib)
  also have "\<dots> = (d * d) / (d * d)" by (simp only: e)
  also have "\<dots> = 1" using d by simp
  finally show ?thesis .
qed

lemma tangent_unit_orthogonal:
  assumes "length_vec N = 1"
  shows "dotProduct (fst (createCoordinateSystem N)) N = 0
       \<and> norm_sq (fst (createCoordinateSystem N)) = 1"
proof -
  have d: "0 < createCoordinateSystem_denominator N" using assms by (rule denominator_positive)
  define d' where "d' = createCoordinateSystem_denominator N"
  have d0: "d' \<noteq> 0" using d d'_def by simp
  show ?thesis
  proof (cases "\<bar>vec_x N\<bar> > \<bar>vec_y N\<bar>")
    case True
    have "0 \<le> vec_x N * vec_x N + vec_z N * vec_z N" by simp
    then have dd: "d' * d' = vec_z N * vec_z N + vec_x N * vec_x N"
      using True by (simp add: d'_def createCoordinateSystem_denominator_def)
    have f: "fst (createCoordinateSystem N) = Vec3f (vec_z N / d') 0 (- vec_x N / d')"
      using True by (simp add: tangent_first_branch d'_def)
    have 1: "dotProduct (fst (createCoordinateSystem N)) N = 0"
      by (simp add: f dotProduct_def)
    have 2: "norm_sq (fst (createCoordinateSystem N)) = 1"
      using quotient_unit[OF d0 dd] by (simp add: f norm_sq_def)
    show ?thesis using 1 2 by simp
  next
    case False
    have "0 \<le> vec_y N * vec_y N + vec_z N * vec_z N" by simp
    then have dd: "d' * d' = vec_z N * vec_z N + vec_y N * vec_y N"
      using False by (simp add: d'_def createCoordinateSystem_denominator_def)
    have f: "fst (createCoordinateSystem N) = Vec3f 0 (- vec_z N / d') (vec_y N / d')"
      using False by (simp add: tangent_second_branch d'_def)
    have 1: "dotProduct (fst (createCoordinateSystem N)) N = 0"
      by (simp add: f dotProduct_def)
    have 2: "norm_sq (fst (createCoordinateSystem N)) = 1"
      using quotient_unit[OF d0 dd] by (simp add: f norm_sq_def)
    show ?thesis using 1 2 by simp
  qed
qed

text \<open>
  C6. For every unit-length normal \<open>N\<close>, \<^verbatim>\<open>createCoordinateSystem\<close> produces \<open>Nt\<close> and
  \<open>Nb\<close> with \<open>Nb = N \<times> Nt\<close>, the three vectors \<open>Nt\<close>, \<open>Nb\<close>, \<open>N\<close> mutually orthogonal and
  each of unit length; and the divisor of the branch taken is not zero. This covers the
  axis-aligned normals.
\<close>

theorem createCoordinateSystem_orthonormal:
  assumes "length_vec N = 1"
  shows "case createCoordinateSystem N of (Nt, Nb) \<Rightarrow>
     Nb = crossProduct N Nt \<and>
     dotProduct Nt N = 0 \<and> dotProduct Nb N = 0 \<and> dotProduct Nt Nb = 0 \<and>
     length_vec Nt = 1 \<and> length_vec Nb = 1 \<and>
     createCoordinateSystem_denominator N \<noteq> 0"
proof -
  obtain Nt Nb where e: "createCoordinateSystem N = (Nt, Nb)"
    by (cases "createCoordinateSystem N")
  have nb: "Nb = crossProduct N Nt"
    using e by (auto simp add: createCoordinateSystem_def Let_def split: if_splits)
  have nt: "dotProduct Nt N = 0" "norm_sq Nt = 1"
    using tangent_unit_orthogonal[OF assms] e by simp_all
  have nn: "norm_sq N = 1" using assms by (simp add: length_vec_def)
  have "dotProduct N Nt = 0" using nt(1) by (simp add: dotProduct_def mult.commute)
  then have nbn: "norm_sq Nb = 1" using nt nn by (simp add: nb cross_norm_sq)
  have "dotProduct Nb N = 0" by (simp add: nb cross_orthogonal_left)
  moreover have "dotProduct Nt Nb = 0" by (simp add: nb cross_orthogonal_right)
  moreover have "createCoordinateSystem_denominator N \<noteq> 0"
    using denominator_positive[OF assms] by simp
  ultimately show ?thesis using e nb nt nbn by (simp add: length_vec_def)
qed

theorem createCoordinateSystem_orthonormal_witness:
  "length_vec (Vec3f 1 0 0) = 1 \<and>
   (case createCoordinateSystem (Vec3f 1 0 0) of (Nt, Nb) \<Rightarrow>
     Nb = crossProduct (Vec3f 1 0 0) Nt \<and>
     dotProduct Nt (Vec3f 1 0 0) = 0 \<and> dotProduct Nb (Vec3f 1 0 0) = 0 \<and> dotProduct Nt Nb = 0 \<and>
     length_vec Nt = 1 \<and> length_vec Nb = 1 \<and>
     createCoordinateSystem_denominator (Vec3f 1 0 0) \<noteq> 0)"
proof -
  have u: "length_vec (Vec3f 1 0 0) = 1" by (simp add: length_vec_def norm_sq_def)
  show ?thesis using createCoordinateSystem_orthonormal [OF u] u by simp
qed

subsection \<open>Hemisphere samples\<close>

lemma hemisphere_ring:
  "(s * c) * (s * c) + r * r + (s * d) * (s * d) = s * s * (c * c + d * d) + r * (r::real)"
  by (simp add: distrib_left mult_ac)

text \<open>
  C7, as the spec states it, asks for a positive local-Y component for every \<open>r1\<close> in
  \<open>[0, 1)\<close>. At \<open>r1 = 0\<close>, which lies in that interval, the component is zero.
\<close>

theorem uniformSampleHemisphere_not_positive_at_zero:
  "(0::real) \<le> 0 \<and> (0::real) < 1 \<and> \<not> 0 < vec_y (uniformSampleHemisphere 0 0)"
  by (simp add: uniformSampleHemisphere_def)

text \<open>
  C7, amended. For every \<open>r1\<close> and \<open>r2\<close> in \<open>[0, 1)\<close> the sample has unit length and its
  local-Y component equals \<open>r1\<close>; that component is never negative, and it is positive
  exactly when \<open>r1\<close> is.
\<close>

theorem uniformSampleHemisphere_unit_nonnegative:
  assumes "0 \<le> r1" "r1 < 1" "0 \<le> r2" "r2 < 1"
  shows "length_vec (uniformSampleHemisphere r1 r2) = 1
       \<and> vec_y (uniformSampleHemisphere r1 r2) = r1
       \<and> 0 \<le> vec_y (uniformSampleHemisphere r1 r2)
       \<and> (0 < vec_y (uniformSampleHemisphere r1 r2)) = (0 < r1)"
proof -
  define s where "s = sqrt (1 - r1 * r1)"
  have "r1 * r1 \<le> 1" using assms by (simp add: mult_le_one)
  then have s2: "s * s = 1 - r1 * r1" by (simp add: s_def)
  have u: "uniformSampleHemisphere r1 r2 = Vec3f (s * cos (2 * pi * r2)) r1 (s * sin (2 * pi * r2))"
    by (simp add: uniformSampleHemisphere_def s_def Let_def)
  have "norm_sq (uniformSampleHemisphere r1 r2) =
        s * s * (cos (2 * pi * r2) * cos (2 * pi * r2) + sin (2 * pi * r2) * sin (2 * pi * r2)) + r1 * r1"
    unfolding u norm_sq_def Vec3f.sel by (rule hemisphere_ring)
  also have "\<dots> = 1" by (simp only: sin_cos_squared_add3 mult_1_right s2 diff_add_cancel)
  finally have "length_vec (uniformSampleHemisphere r1 r2) = 1" by (simp add: length_vec_def)
  then show ?thesis using assms by (simp add: u)
qed

theorem uniformSampleHemisphere_unit_nonnegative_witness:
  "(0::real) \<le> 1 / 2 \<and> (1 / 2 :: real) < 1 \<and> (0::real) \<le> 1 / 4 \<and> (1 / 4 :: real) < 1 \<and>
   length_vec (uniformSampleHemisphere (1 / 2) (1 / 4)) = 1 \<and>
   vec_y (uniformSampleHemisphere (1 / 2) (1 / 4)) = 1 / 2 \<and>
   0 \<le> vec_y (uniformSampleHemisphere (1 / 2) (1 / 4)) \<and>
   (0 < vec_y (uniformSampleHemisphere (1 / 2) (1 / 4))) = (0 < (1 / 2 :: real))"
  using uniformSampleHemisphere_unit_nonnegative [of "1 / 2" "1 / 4"] by simp

subsection \<open>Refraction and reflection\<close>

lemma floor_log2_between:
  assumes "2 powi e \<le> a" "a < 2 powi (e + 1)"
  shows "\<lfloor>log 2 a\<rfloor> = e"
proof -
  have "(0::real) < 2 powi e" by simp
  then have pos: "0 < a" using assms(1) by linarith
  have p: "\<And>n::int. (2::real) powr real_of_int n = 2 powi n"
    by (rule powr_real_of_int') simp_all
  have "(2::real) powr real_of_int e \<le> a \<and> a < 2 powr (real_of_int e + 1)"
    using assms p[of e] p[of "e + 1"] by simp
  then show ?thesis using pos by (simp add: floor_log_eq_powr_iff)
qed

lemma round32_normal:
  assumes "2 powi e \<le> \<bar>x\<bar>" "\<bar>x\<bar> < 2 powi (e + 1)" "- 126 \<le> e"
    and "round_to_even (x / 2 powi (e - 23)) = m"
    and "\<bar>real_of_int m * 2 powi (e - 23)\<bar> < 2 ^ 128"
  shows "round32 x = Finite (of_int m * 2 powi (e - 23))"
proof -
  have "(0::real) < 2 powi e" by simp
  then have "0 < \<bar>x\<bar>" using assms(1) by linarith
  then have nz: "x \<noteq> 0" by simp
  have fl: "\<lfloor>log 2 \<bar>x\<bar>\<rfloor> = e" using assms(1,2) by (rule floor_log2_between)
  show ?thesis
    using nz assms(3,4,5) by (simp add: round32_def fl Let_def max_def)
qed

lemma round_to_even_near:
  assumes "\<bar>x - of_int m\<bar> < 1 / 2"
  shows "round_to_even x = m"
proof (cases "of_int m \<le> x")
  case True
  then have "\<lfloor>x\<rfloor> = m" using assms by (intro floor_unique) linarith+
  then show ?thesis using assms True by (simp add: round_to_even_def Let_def)
next
  case False
  then have f: "\<lfloor>x\<rfloor> = m - 1" using assms by (intro floor_unique) (simp, linarith+)
  have "1 / 2 < x - of_int (m - 1)" using assms False by simp
  then show ?thesis using f by (simp add: round_to_even_def Let_def)
qed

lemma sqrt_between:
  assumes "0 \<le> lo" "lo * lo < r" "0 \<le> hi" "r < hi * hi"
  shows "lo < sqrt r \<and> sqrt r < hi"
proof -
  have "lo\<^sup>2 < r" using assms(2) by (simp add: power2_eq_square)
  then have a: "lo < sqrt r" by (rule real_less_rsqrt)
  have "r < hi\<^sup>2" using assms(4) by (simp add: power2_eq_square)
  then have b: "sqrt r < hi" using assms(3) by (intro real_less_lsqrt) simp_all
  show ?thesis using a b by simp
qed

lemma round32_1: "round32 1 = Finite 1"
  using round32_normal[of 0 1 8388608] by (simp add: round_to_even_def)

lemma round32_minus_1: "round32 (- 1) = Finite (- 1)"
  using round32_normal[of 0 "- 1" "- 8388608"] by (simp add: round_to_even_def)

lemma refract32_normal_incidence:
  assumes "binary32_value x" "binary32_value y" "binary32_value z"
    and "finite_value a" "finite_value b" "finite_value c"
    and "refract32_cosi (Vec3f32 x y z) (Vec3f32 a b c) = Finite 1"
  shows "refract32 (Vec3f32 x y z) (Vec3f32 a b c) (Finite 1) = Vec3f32 x y z"
proof -
  obtain x' y' z' where v: "x = Finite x'" "y = Finite y'" "z = Finite z'"
    and r: "round32 x' = Finite x'" "round32 y' = Finite y'" "round32 z' = Finite z'"
    using assms(1,2,3) by (cases x; cases y; cases z) auto
  obtain a' b' c' where n: "a = Finite a'" "b = Finite b'" "c = Finite c'"
    using assms(4,5,6) by (cases a; cases b; cases c) auto
  define I where "I = Vec3f32 (Finite x') (Finite y') (Finite z')"
  define N where "N = Vec3f32 (Finite a') (Finite b') (Finite c')"
  have cosi: "refract32_cosi I N = Finite 1" using assms(7) by (simp add: v n I_def N_def)
  have z0: "round32 0 = Finite 0" by (simp add: round32_def)
  have eta: "refract32_eta I N (Finite 1) = Finite 1"
    by (simp add: refract32_eta_def Let_def round32_1)
  have k: "refract32_k I N (Finite 1) = Finite 1"
    by (simp add: refract32_k_def Let_def eta cosi fsub_def round32_1 z0)
  have nn: "refract32_n I N = N \<or> refract32_n I N = uminus32 N"
    by (simp add: refract32_n_def Let_def)
  have s: "fsub (fmul (Finite 1) (Finite 1)) (fsqrt (Finite 1)) = Finite 0"
    by (simp add: fsub_def round32_1 z0)
  have a: "scalar_times32 (Finite 0) N = Vec3f32 (Finite 0) (Finite 0) (Finite 0)"
          "scalar_times32 (Finite 0) (uminus32 N) = Vec3f32 (Finite 0) (Finite 0) (Finite 0)"
    by (simp_all add: N_def z0)
  have b: "plus32 (scalar_times32 (Finite 1) I) (Vec3f32 (Finite 0) (Finite 0) (Finite 0)) = I"
    by (simp add: I_def r)
  have "refract32 I N (Finite 1) = I"
    using nn by (auto simp add: refract32_def Let_def eta k cosi fsub_def round32_1 z0 a b)
  then show ?thesis by (simp add: I_def N_def v n)
qed

lemma round32_Ix: "round32 (13523797 / 16777216) = Finite (13523797 / 16777216)"
  using round32_normal[of "- 1" "13523797 / 16777216" "13523797"] by (simp add: round_to_even_def)

lemma round32_Iy: "round32 (- (4964421 / 8388608)) = Finite (- (4964421 / 8388608))"
  using round32_normal[of "- 1" "- (4964421 / 8388608)" "- 9928842"] by (simp add: round_to_even_def)

lemma round32_c: "round32 (4964421 / 8388608) = Finite (4964421 / 8388608)"
  using round32_normal[of "- 1" "4964421 / 8388608" "9928842"] by (simp add: round_to_even_def)

lemma round32_c_squared: "round32 (24645475865241 / 70368744177664) = Finite (11751879 / 33554432)"
  using round32_normal[of "- 2" "24645475865241 / 70368744177664" "11751879"] by (simp add: round_to_even_def)

lemma round32_one_minus_p: "round32 (21802553 / 33554432) = Finite (2725319 / 4194304)"
  using round32_normal[of "- 1" "21802553 / 33554432" "10901276"] by (simp add: round_to_even_def)

lemma round32_q: "round32 (2725319 / 4194304) = Finite (2725319 / 4194304)"
  using round32_normal[of "- 1" "2725319 / 4194304" "10901276"] by (simp add: round_to_even_def)

lemma round32_k: "round32 (1468985 / 4194304) = Finite (1468985 / 4194304)"
  using round32_normal[of "- 2" "1468985 / 4194304" "11751880"] by (simp add: round_to_even_def)

lemma round32_d: "round32 (- (1 / 16777216)) = Finite (- (1 / 16777216))"
  using round32_normal[of "- 24" "- (1 / 16777216)" "- 8388608"] by (simp add: round_to_even_def)

lemma round32_y: "round32 (- (9928843 / 16777216)) = Finite (- (9928843 / 16777216))"
  using round32_normal[of "- 1" "- (9928843 / 16777216)" "- 9928843"] by (simp add: round_to_even_def)

lemma round32_0: "round32 0 = Finite 0"
  by (simp add: round32_def)

lemma round32_sqrt_k: "round32 (sqrt (1468985 / 4194304)) = Finite (9928843 / 16777216)"
proof -
  have b: "19857685 / 33554432 < sqrt (1468985 / 4194304) \<and> sqrt (1468985 / 4194304) < 19857687 / 33554432"
    by (rule sqrt_between) simp_all
  define s where "s = sqrt (1468985 / 4194304)"
  have b': "19857685 / 33554432 < s" "s < 19857687 / 33554432" using b by (simp_all add: s_def)
  have "\<bar>s * 16777216 - 9928843\<bar> < 1 / 2" using b' by linarith
  then have near: "round_to_even (sqrt (1468985 / 4194304) / 2 powi (- 1 - 23)) = 9928843"
    by (intro round_to_even_near) (simp add: s_def)
  show ?thesis
    using round32_normal[of "- 1" "sqrt (1468985 / 4194304)" 9928843, OF _ _ _ near] b
    by simp
qed

lemma oblique_dot: "dotProduct32 oblique_I up_N = Finite (- (4964421 / 8388608))"
  by (simp add: oblique_I_def up_N_def round32_0 round32_Iy)

lemma oblique_cosi: "refract32_cosi oblique_I up_N = Finite (4964421 / 8388608)"
  by (simp add: refract32_cosi_def oblique_dot fmin_def fmax_def Let_def)

lemma oblique_eta: "refract32_eta oblique_I up_N (Finite 1) = Finite 1"
  by (simp add: refract32_eta_def Let_def round32_1)

lemma oblique_n: "refract32_n oblique_I up_N = up_N"
  by (simp add: refract32_n_def oblique_dot fmin_def fmax_def Let_def)

lemma oblique_k: "refract32_k oblique_I up_N (Finite 1) = Finite (1468985 / 4194304)"
  by (simp add: refract32_k_def oblique_cosi oblique_eta Let_def fsub_def round32_1
                round32_c_squared round32_one_minus_p round32_q round32_k)

lemma oblique_refract:
  "refract32 oblique_I up_N (Finite 1)
     = Vec3f32 (Finite (13523797 / 16777216)) (Finite (- (9928843 / 16777216))) (Finite 0)"
proof -
  have t: "scalar_times32 (Finite (- (1 / 16777216))) up_N
           = Vec3f32 (Finite 0) (Finite (- (1 / 16777216))) (Finite 0)"
    by (simp add: up_N_def round32_0 round32_d)
  have u: "scalar_times32 (Finite 1) oblique_I = oblique_I"
    by (simp add: oblique_I_def round32_0 round32_Ix round32_Iy)
  have v: "plus32 oblique_I (Vec3f32 (Finite 0) (Finite (- (1 / 16777216))) (Finite 0))
           = Vec3f32 (Finite (13523797 / 16777216)) (Finite (- (9928843 / 16777216))) (Finite 0)"
    by (simp add: oblique_I_def round32_0 round32_Ix round32_y)
  show ?thesis
    by (simp add: refract32_def Let_def oblique_cosi oblique_eta oblique_n oblique_k
                  fsub_def round32_c round32_sqrt_k round32_d t u v)
qed

lemma round32_half: "round32 (1 / 2) = Finite (1 / 2)"
  using round32_normal[of "- 1" "1 / 2" 8388608] by (simp add: round_to_even_def)

lemma round32_minus_half: "round32 (- (1 / 2)) = Finite (- (1 / 2))"
  using round32_normal[of "- 1" "- (1 / 2)" "- 8388608"] by (simp add: round_to_even_def)

lemma round32_quarter: "round32 (1 / 4) = Finite (1 / 4)"
  using round32_normal[of "- 2" "1 / 4" 8388608] by (simp add: round_to_even_def)

lemma round32_three_quarters: "round32 (3 / 4) = Finite (3 / 4)"
  using round32_normal[of "- 1" "3 / 4" 12582912] by (simp add: round_to_even_def)

text \<open>
  C8, as the spec states it, says that with \<open>ior = 1\<close> \<^verbatim>\<open>refract\<close> returns the incident
  direction unchanged for every incident direction and unit normal. In binary32
  arithmetic, at the normal \<open>(0, 1, 0)\<close> and the incident direction
  \<open>(13523797 / 2\<^sup>2\<^sup>4, - 9928842 / 2\<^sup>2\<^sup>4, 0)\<close>, the square of the cosine, its complement and the
  square root are each rounded, and the returned Y component is \<open>- 9928843 / 2\<^sup>2\<^sup>4\<close>: one
  unit in the last place away from the incident one.
\<close>

theorem refract_binary32_changes_direction_at_ior_1:
  "binary32_vector oblique_I \<and> binary32_vector up_N \<and> dotProduct32 up_N up_N = Finite 1 \<and>
   refract32 oblique_I up_N (Finite 1)
     = Vec3f32 (Finite (13523797 / 16777216)) (Finite (- (9928843 / 16777216))) (Finite 0) \<and>
   refract32 oblique_I up_N (Finite 1) \<noteq> oblique_I"
proof -
  have a: "binary32_vector oblique_I"
    by (simp add: oblique_I_def round32_Ix round32_Iy round32_0)
  have b: "binary32_vector up_N" "dotProduct32 up_N up_N = Finite 1"
    by (simp_all add: up_N_def round32_0 round32_1)
  have c: "refract32 oblique_I up_N (Finite 1) \<noteq> oblique_I"
    unfolding oblique_refract by (simp add: oblique_I_def)
  show ?thesis using a b c oblique_refract by simp
qed

text \<open>
  C8, amended. In binary32 arithmetic \<^verbatim>\<open>refract\<close> returns the zero vector whenever the
  discriminant \<open>k\<close> that the code computes is negative, for all arguments (at \<open>ior = 0\<close>
  that \<open>k\<close> is minus infinity); and with \<open>ior = 1\<close> it returns the incident direction
  unchanged when the clamped cosine has magnitude one, that is at normal incidence, for
  every incident direction held in \<^verbatim>\<open>float\<close> variables and every finite normal.
\<close>

theorem refract_binary32_zero_on_negative_k_and_identity_at_normal_incidence:
  "(flt (refract32_k I N ior) (Finite 0) \<longrightarrow>
      refract32 I N ior = Vec3f32 (Finite 0) (Finite 0) (Finite 0))
   \<and> (binary32_vector I \<and> finite_vector N \<and> refract32_cosi I N = Finite 1 \<longrightarrow>
      refract32 I N (Finite 1) = I)"
proof -
  have a: "flt (refract32_k I N ior) (Finite 0) \<longrightarrow>
      refract32 I N ior = Vec3f32 (Finite 0) (Finite 0) (Finite 0)"
    by (simp add: refract32_def Let_def)
  have b: "binary32_vector I \<and> finite_vector N \<and> refract32_cosi I N = Finite 1 \<longrightarrow>
      refract32 I N (Finite 1) = I"
  proof (cases I)
    case I: (Vec3f32 x y z)
    show ?thesis
    proof (cases N)
      case N: (Vec3f32 a b c)
      show ?thesis
        unfolding I N using refract32_normal_incidence[of x y z a b c] by simp
    qed
  qed
  show ?thesis using a b by simp
qed

theorem refract_binary32_zero_on_negative_k_and_identity_at_normal_incidence_witness:
  "flt (refract32_k (Vec3f32 (Finite 1) (Finite (- (1 / 2))) (Finite 0)) up_N (Finite 0)) (Finite 0) \<and>
   refract32_k (Vec3f32 (Finite 1) (Finite (- (1 / 2))) (Finite 0)) up_N (Finite 0) = MinusInfinity \<and>
   refract32 (Vec3f32 (Finite 1) (Finite (- (1 / 2))) (Finite 0)) up_N (Finite 0)
     = Vec3f32 (Finite 0) (Finite 0) (Finite 0) \<and>
   binary32_vector (Vec3f32 (Finite 0) (Finite (- 1)) (Finite 0)) \<and> finite_vector up_N \<and>
   refract32_cosi (Vec3f32 (Finite 0) (Finite (- 1)) (Finite 0)) up_N = Finite 1 \<and>
   refract32 (Vec3f32 (Finite 0) (Finite (- 1)) (Finite 0)) up_N (Finite 1)
     = Vec3f32 (Finite 0) (Finite (- 1)) (Finite 0)"
proof -
  have k: "refract32_k (Vec3f32 (Finite 1) (Finite (- (1 / 2))) (Finite 0)) up_N (Finite 0) = MinusInfinity"
    by (simp add: refract32_k_def refract32_cosi_def refract32_eta_def up_N_def Let_def fmin_def fmax_def
                  fsub_def round32_0 round32_1 round32_minus_half round32_quarter round32_three_quarters)
  have v: "binary32_vector (Vec3f32 (Finite 0) (Finite (- 1)) (Finite 0))" "finite_vector up_N"
    by (simp_all add: up_N_def round32_0 round32_minus_1)
  have c: "refract32_cosi (Vec3f32 (Finite 0) (Finite (- 1)) (Finite 0)) up_N = Finite 1"
    by (simp add: refract32_cosi_def up_N_def Let_def fmin_def fmax_def round32_0 round32_minus_1)
  show ?thesis
    using refract_binary32_zero_on_negative_k_and_identity_at_normal_incidence
            [of "Vec3f32 (Finite 1) (Finite (- (1 / 2))) (Finite 0)" up_N "Finite 0"]
          refract_binary32_zero_on_negative_k_and_identity_at_normal_incidence
            [of "Vec3f32 (Finite 0) (Finite (- 1)) (Finite 0)" up_N "Finite 1"]
          k v c
    by simp
qed



subsection \<open>The bias option\<close>

lemma transparent_ignores_bias:
  "castRay_transparent ext cast (options\<lparr>bias := b\<rparr>) dir hitNormal m hitColor scene generator
   = castRay_transparent ext cast options dir hitNormal m hitColor scene generator"
  by (simp add: castRay_transparent_def Let_def)

lemma castRay_ignores_bias:
  "castRay ext fuel orig dir scene (options\<lparr>bias := b\<rparr>) depth generator
   = castRay ext fuel orig dir scene options depth generator"
proof (induction fuel arbitrary: orig dir scene depth generator)
  case 0
  show ?case by simp
next
  case (Suc fuel)
  show ?case
    by (simp add: Suc.IH transparent_ignores_bias Let_def cong: if_cong
             split: prod.splits option.splits)
qed

lemma render_columns_ignores_bias:
  "render_columns ext fuel (options\<lparr>bias := b\<rparr>) scale imageAspectRatio orig j i scene buffer pixels generator
   = render_columns ext fuel options scale imageAspectRatio orig j i scene buffer pixels generator"
proof (induction ext fuel options scale imageAspectRatio orig j i scene buffer pixels generator
       rule: render_columns.induct)
  case (1 ext fuel options scale imageAspectRatio orig j i scene buffer pixels generator)
  show ?case
  proof (cases "i < width options")
    case False
    then show ?thesis
      by (simp add: render_columns.simps[of _ _ _ _ _ _ _ i])
  next
    case True
    have step: "\<And>color scene' generator'. pixels < length buffer \<Longrightarrow>
        render_columns ext fuel (options\<lparr>bias := b\<rparr>) scale imageAspectRatio orig j (i + 1)
           scene' (buffer[pixels := color]) (Suc pixels) generator'
      = render_columns ext fuel options scale imageAspectRatio orig j (i + 1)
           scene' (buffer[pixels := color]) (Suc pixels) generator'"
      using "1.IH"[OF True refl refl refl] by simp
    show ?thesis
      using True
      apply (simp add: render_columns.simps[of _ _ _ _ _ _ _ i] castRay_ignores_bias Let_def)
      apply (rule bind_result_cong[OF refl])
      apply (simp add: step split: prod.splits)
      done
  qed
qed

lemma render_rows_ignores_bias:
  "render_rows ext fuel (options\<lparr>bias := b\<rparr>) scale imageAspectRatio orig j scene buffer pixels generator
   = render_rows ext fuel options scale imageAspectRatio orig j scene buffer pixels generator"
proof (induction ext fuel options scale imageAspectRatio orig j scene buffer pixels generator
       rule: render_rows.induct)
  case (1 ext fuel options scale imageAspectRatio orig j scene buffer pixels generator)
  show ?case
  proof (cases "j < height options")
    case False
    then show ?thesis
      by (simp add: render_rows.simps[of _ _ _ _ _ _ j])
  next
    case True
    show ?thesis
      using True
      apply (simp add: render_rows.simps[of _ _ _ _ _ _ j] render_columns_ignores_bias)
      apply (rule bind_result_cong[OF refl])
      apply (simp add: "1.IH" split: prod.splits)
      done
  qed
qed

text \<open>
  C10. The results of \<^verbatim>\<open>castRay\<close> and of \<^verbatim>\<open>render\<close> do not depend on \<open>options.bias\<close>:
  two calls that agree on every input except that field return the same value. The
  offset computed from the bias in the transparent block, like the \<open>outside\<close> test, is
  never used.
\<close>

theorem castRay_and_render_independent_of_bias:
  "castRay ext fuel orig dir scene (options\<lparr>bias := b\<rparr>) depth generator
     = castRay ext fuel orig dir scene options depth generator
   \<and> render ext fuel (options\<lparr>bias := b\<rparr>) scene buffer generator
     = render ext fuel options scene buffer generator"
  by (simp add: castRay_ignores_bias render_def render_rows_ignores_bias)

subsection \<open>The frame loop writes the pixels in row-major order\<close>

lemma trace_pixels_length:
  "trace_pixels ext fuel options orig ps scene generator = Some (Inr (colors, scene', generator'))
   \<Longrightarrow> length colors = length ps"
proof (induction ps arbitrary: scene generator colors scene' generator')
  case Nil
  then show ?case by simp
next
  case (Cons p ps)
  obtain i j where p: "p = (i, j)" by (cases p)
  from Cons.prems show ?case
    by (auto simp: p bind_result_def split: option.splits sum.splits prod.splits dest: Cons.IH)
qed

lemma trace_pixels_append:
  "trace_pixels ext fuel options orig (ps @ qs) scene generator =
     bind_result (trace_pixels ext fuel options orig ps scene generator)
       (\<lambda>(colors, scene, generator).
          bind_result (trace_pixels ext fuel options orig qs scene generator)
            (\<lambda>(colors', scene, generator). Some (Inr (colors @ colors', scene, generator))))"
proof (induction ps arbitrary: scene generator)
  case Nil
  show ?case by (simp add: bind_result_def split: option.splits sum.splits prod.splits)
next
  case (Cons p ps)
  obtain i j where p: "p = (i, j)" by (cases p)
  show ?case
    by (simp add: p Cons.IH bind_result_def split: option.splits sum.splits prod.splits)
qed

lemma render_columns_trace:
  assumes "scale = tan (fov options * 0.5 * pi / 180)"
    and "imageAspectRatio = of_int (width options) / of_int (height options)"
  shows "pixels + nat (width options - i) \<le> length buffer \<Longrightarrow>
   render_columns ext fuel options scale imageAspectRatio orig j i scene buffer pixels generator =
   bind_result (trace_pixels ext fuel options orig (map (\<lambda>i. (i, j)) [i..width options - 1]) scene generator)
     (\<lambda>(colors, scene, generator).
        Some (Inr (scene, take pixels buffer @ colors @ drop (pixels + length colors) buffer,
                   pixels + length colors, generator)))"
  using assms
proof (induction ext fuel options scale imageAspectRatio orig j i scene buffer pixels generator
       rule: render_columns.induct)
  case (1 ext fuel options scale imageAspectRatio orig j i scene buffer pixels generator)
  show ?case
  proof (cases "i < width options")
    case False
    then show ?thesis
      by (simp add: render_columns.simps[of _ _ _ _ _ _ _ i] bind_result_simps)
  next
    case True
    then have up: "[i..width options - 1] = i # [i + 1..width options - 1]"
      by (simp add: upto_rec1)
    have lt: "pixels < length buffer" using True "1.prems"(1) by linarith
    have dir: "normalize_vec ext (multDirMatrix ext (cameraToWorld options)
                 (Vec3f ((2 * (of_int i + 0.5) / of_int (width options) - 1) * imageAspectRatio * scale)
                        ((1 - 2 * (of_int j + 0.5) / of_int (height options)) * scale) (- 1)))
               = primary_ray ext options i j"
      by (simp add: primary_ray_def Let_def "1.prems")
    have step: "\<And>color scene' generator'.
        render_columns ext fuel options scale imageAspectRatio orig j (i + 1)
           scene' (buffer[pixels := color]) (Suc pixels) generator'
      = bind_result (trace_pixels ext fuel options orig (map (\<lambda>i. (i, j)) [i + 1..width options - 1]) scene' generator')
         (\<lambda>(colors, scene, generator).
            Some (Inr (scene, take (Suc pixels) (buffer[pixels := color]) @ colors
                               @ drop (Suc (pixels + length colors)) (buffer[pixels := color]),
                       Suc (pixels + length colors), generator)))"
    proof -
      fix color scene' generator'
      have "Suc pixels + nat (width options - (i + 1)) \<le> length (buffer[pixels := color])"
        using True "1.prems"(1) by simp
      then show "?thesis color scene' generator'"
        using "1.IH"[OF True refl refl refl lt, of color scene' generator'] "1.prems"(2,3)
        by simp
    qed
    have unf: "render_columns ext fuel options scale imageAspectRatio orig j i scene buffer pixels generator
      = bind_result (castRay ext fuel orig (primary_ray ext options i j) scene options 0 generator)
             (\<lambda>(color, scene, generator).
                render_columns ext fuel options scale imageAspectRatio orig j (i + 1)
                       scene (buffer[pixels := color]) (Suc pixels) generator)"
      apply (subst render_columns.simps)
      using True lt dir by (simp add: Let_def)
    show ?thesis
      unfolding unf up using lt
      by (auto simp add: step bind_result_def take_Suc_conv_app_nth
               split: option.splits sum.splits prod.splits)
  qed
qed

lemma block_take:
  "p + length cs \<le> length b \<Longrightarrow>
   take (p + length cs) (take p b @ cs @ drop (p + length cs) b) = take p b @ cs"
  by simp

lemma block_drop:
  "p + length cs \<le> length b \<Longrightarrow>
   drop (p + length cs + k) (take p b @ cs @ drop (p + length cs) b) = drop (p + length cs + k) b"
  by (simp add: add.commute)

lemma render_rows_trace:
  assumes "scale = tan (fov options * 0.5 * pi / 180)"
    and "imageAspectRatio = of_int (width options) / of_int (height options)"
  shows "pixels + nat (width options) * nat (height options - j) \<le> length buffer \<Longrightarrow>
   render_rows ext fuel options scale imageAspectRatio orig j scene buffer pixels generator =
   bind_result (trace_pixels ext fuel options orig
                  (concat (map (\<lambda>j. map (\<lambda>i. (i, j)) [0..width options - 1]) [j..height options - 1]))
                  scene generator)
     (\<lambda>(colors, scene, generator).
        Some (Inr (scene, take pixels buffer @ colors @ drop (pixels + length colors) buffer,
                   pixels + length colors, generator)))"
  using assms
proof (induction ext fuel options scale imageAspectRatio orig j scene buffer pixels generator
       rule: render_rows.induct)
  case (1 ext fuel options scale imageAspectRatio orig j scene buffer pixels generator)
  show ?case
  proof (cases "j < height options")
    case False
    then show ?thesis
      by (simp add: render_rows.simps[of _ _ _ _ _ _ j] bind_result_simps)
  next
    case True
    define w where "w = nat (width options)"
    define row where "row = map (\<lambda>i. (i, j)) [0..width options - 1]"
    define others where "others = concat (map (\<lambda>j. map (\<lambda>i. (i, j)) [0..width options - 1]) [j + 1..height options - 1])"
    have up: "[j..height options - 1] = j # [j + 1..height options - 1]"
      using True by (simp add: upto_rec1)
    have rowlen: "length row = w" by (simp add: row_def w_def)
    have hpos: "nat (height options - j) = Suc (nat (height options - (j + 1)))"
      using True by simp
    have room: "pixels + w + w * nat (height options - (j + 1)) \<le> length buffer"
      using "1.prems"(1) by (simp add: hpos w_def)
    then have room1: "pixels + nat (width options - 0) \<le> length buffer"
      by (simp add: w_def)
    have cols: "render_columns ext fuel options scale imageAspectRatio orig j 0 scene buffer pixels generator
      = bind_result (trace_pixels ext fuel options orig row scene generator)
     (\<lambda>(colors, scene, generator).
        Some (Inr (scene, take pixels buffer @ colors @ drop (pixels + length colors) buffer,
                   pixels + length colors, generator)))"
      unfolding row_def by (rule render_columns_trace[OF "1.prems"(2,3) room1])
    have rest: "\<And>cs s g. length cs = w \<Longrightarrow>
       render_rows ext fuel options scale imageAspectRatio orig (j + 1) s
           (take pixels buffer @ cs @ drop (pixels + length cs) buffer) (pixels + length cs) g
       = bind_result (trace_pixels ext fuel options orig others s g)
           (\<lambda>(colors, scene, generator).
              Some (Inr (scene, take pixels buffer @ (cs @ colors) @ drop (pixels + length (cs @ colors)) buffer,
                   pixels + length (cs @ colors), generator)))"
    proof -
      fix cs :: "Vec3f list" and s g
      assume l: "length cs = w"
      have fits: "pixels + length cs \<le> length buffer" using room l by simp
      have len: "length (take pixels buffer @ cs @ drop (pixels + length cs) buffer) = length buffer"
        using fits by simp
      have pre: "pixels + length cs + nat (width options) * nat (height options - (j + 1))
                  \<le> length (take pixels buffer @ cs @ drop (pixels + length cs) buffer)"
        using room l fits by (simp add: w_def)
      show "?thesis cs s g"
        unfolding others_def
        apply (subst "1.IH"[OF True pre "1.prems"(2,3)])
        apply (rule bind_result_cong[OF refl])
        using fits
        apply (simp add: block_take block_drop add.assoc split: prod.splits)
        apply (simp add: add_ac)
        done
    qed
    have L: "render_rows ext fuel options scale imageAspectRatio orig j scene buffer pixels generator
      = bind_result
          (render_columns ext fuel options scale imageAspectRatio orig j 0 scene buffer pixels generator)
          (\<lambda>(scene, buffer, pixels, generator).
             render_rows ext fuel options scale imageAspectRatio orig (j + 1) scene buffer pixels generator)"
      by (subst render_rows.simps) (simp add: True)
    have R: "trace_pixels ext fuel options orig
                  (concat (map (\<lambda>j. map (\<lambda>i. (i, j)) [0..width options - 1]) [j..height options - 1]))
                  scene generator
      = bind_result (trace_pixels ext fuel options orig row scene generator)
          (\<lambda>(colors, scene, generator).
             bind_result (trace_pixels ext fuel options orig others scene generator)
               (\<lambda>(colors', scene, generator). Some (Inr (colors @ colors', scene, generator))))"
      by (simp add: up row_def others_def trace_pixels_append)
    show ?thesis
    proof (cases "trace_pixels ext fuel options orig row scene generator")
      case None
      then show ?thesis by (simp add: L R cols bind_result_simps)
    next
      case (Some r)
      show ?thesis
      proof (cases r)
        case (Inl e)
        then show ?thesis using Some by (simp add: L R cols bind_result_simps)
      next
        case (Inr t)
        obtain cs s g where t: "t = (cs, s, g)" by (cases t)
        have eq: "trace_pixels ext fuel options orig row scene generator = Some (Inr (cs, s, g))"
          using Some Inr t by simp
        have l: "length cs = w" using trace_pixels_length[OF eq] rowlen by simp
        show ?thesis
          apply (simp only: L R cols eq bind_result_simps prod.case rest[OF l])
          apply (simp add: bind_result_def split: option.splits sum.splits prod.splits)
          done
      qed
    qed
  qed
qed

lemma render_trace:
  assumes "nat (width options) * nat (height options) \<le> length buffer"
  shows "render ext fuel options scene buffer generator =
     bind_result (trace_pixels ext fuel options (multVecMatrix ext (cameraToWorld options) (Vec3f_of 0))
                    (row_major (width options) (height options)) scene generator)
       (\<lambda>(colors, scene, generator). Some (Inr (scene, colors @ drop (length colors) buffer, generator)))"
proof -
  have room: "0 + nat (width options) * nat (height options - 0) \<le> length buffer"
    using assms by simp
  show ?thesis
    unfolding render_def Let_def row_major_def
    apply (subst render_rows_trace[OF refl refl room])
    apply (simp add: bind_result_def split: option.splits sum.splits prod.splits)
    done
qed

lemma concat_uniform_nth:
  "(\<And>x. x \<in> set xs \<Longrightarrow> length (f x) = n) \<Longrightarrow> k < length xs \<Longrightarrow> i < n \<Longrightarrow>
   concat (map f xs) ! (k * n + i) = f (xs ! k) ! i"
proof (induction xs arbitrary: k)
  case Nil
  then show ?case by simp
next
  case (Cons x xs)
  have lx: "length (f x) = n" using Cons.prems(1) by simp
  show ?case
  proof (cases k)
    case 0
    then show ?thesis using Cons.prems(3) lx by (simp add: nth_append)
  next
    case (Suc k')
    have "concat (map f xs) ! (k' * n + i) = f (xs ! k') ! i"
      using Cons.prems Suc by (intro Cons.IH) simp_all
    then show ?thesis using Suc lx by (simp add: nth_append)
  qed
qed

lemma row_major_length: "length (row_major w h) = nat w * nat h"
  by (simp add: row_major_def length_concat comp_def sum_list_triv)

lemma row_major_nth:
  assumes "0 \<le> i" "i < w" "0 \<le> j" "j < h"
  shows "row_major w h ! (nat j * nat w + nat i) = (i, j)"
proof -
  have "row_major w h ! (nat j * nat w + nat i) = map (\<lambda>i. (i, [0..h - 1] ! nat j)) [0..w - 1] ! nat i"
    unfolding row_major_def
    by (rule concat_uniform_nth) (use assms in simp_all)
  also have "\<dots> = (i, j)" using assms by simp
  finally show ?thesis .
qed

subsection \<open>Evaluating the small scene\<close>

lemma demo_frame: "createCoordinateSystem (Vec3f 0 0 1) = (Vec3f 0 (- 1) 0, Vec3f 1 0 0)"
  by (simp add: createCoordinateSystem_def Let_def divide_by_def crossProduct_def)

lemma demo_lamp_ray:
  assumes "0 \<le> vec_z d" "vec_y d = 0"
  shows "castRay demo_externals (Suc f) hp d s demo_options 1 g = Some (Inr (Vec3f 1 1 1, Suc s, g))"
  using assms
  by (simp add: demo_externals_def demo_options_def lamp_def Let_def times_Vec3f_def)

lemma demo_loop_dark:
  "1 \<le> g \<Longrightarrow> n = 128 - int k \<Longrightarrow> k \<le> 128 \<Longrightarrow>
   diffuse_loop demo_externals (demo_cast f hp) (Vec3f 0 0 1) (Vec3f 0 (- 1) 0) (Vec3f 1 0 0)
      (1 / (2 * pi)) 128 n acc s g
   = Some (Inr (acc, s + k, g + 2 * k))"
proof (induction k arbitrary: n acc s g)
  case 0
  then show ?case by (subst diffuse_loop.simps) simp
next
  case (Suc k)
  have n: "n < 128" using Suc.prems by simp
  have d1: "distribution demo_externals g = (0, Suc g)"
    using Suc.prems(1) by (simp add: demo_externals_def)
  have d2: "distribution demo_externals (Suc g) = (0, Suc (Suc g))"
    by (simp add: demo_externals_def)
  have c: "demo_cast f hp (Vec3f 1 0 0) s (Suc (Suc g)) = Some (Inr (Vec3f 1 1 1, Suc s, Suc (Suc g)))"
    by (simp add: demo_cast_def demo_lamp_ray del: castRay.simps)
  have z: "acc + divide_by (scalar_times 0 (Vec3f 1 1 1)) (1 / (2 * pi)) = acc"
    by (cases acc) (simp add: vec_defs)
  have ih: "diffuse_loop demo_externals (demo_cast f hp) (Vec3f 0 0 1) (Vec3f 0 (- 1) 0) (Vec3f 1 0 0)
      (1 / (2 * pi)) 128 (n + 1) acc (Suc s) (Suc (Suc g)) = Some (Inr (acc, Suc s + k, Suc (Suc g) + 2 * k))"
    by (rule Suc.IH) (use Suc.prems in simp_all)
  show ?case
    apply (subst diffuse_loop.simps)
    apply (simp add: n d1 d2 uniformSampleHemisphere_def Let_def c z ih)
    done
qed

lemma demo_loop_first:
  "diffuse_loop demo_externals (demo_cast f hp) (Vec3f 0 0 1) (Vec3f 0 (- 1) 0) (Vec3f 1 0 0)
      (1 / (2 * pi)) 128 0 (Vec3f 0 0 0) s 0
   = Some (Inr (Vec3f pi pi pi, s + 128, 256))"
proof -
  have d1: "distribution demo_externals 0 = (1 / 2, Suc 0)"
    by (simp add: demo_externals_def)
  have d2: "distribution demo_externals (Suc 0) = (0, Suc (Suc 0))"
    by (simp add: demo_externals_def)
  have c: "\<And>x. demo_cast f hp (Vec3f x 0 (1 / 2)) s (Suc (Suc 0)) = Some (Inr (Vec3f 1 1 1, Suc s, Suc (Suc 0)))"
    by (simp add: demo_cast_def demo_lamp_ray del: castRay.simps)
  have z: "Vec3f 0 0 0 + divide_by (scalar_times (1 / 2) (Vec3f 1 1 1)) (1 / (2 * pi)) = Vec3f pi pi pi"
    by (simp add: vec_defs)
  have rest: "diffuse_loop demo_externals (demo_cast f hp) (Vec3f 0 0 1) (Vec3f 0 (- 1) 0) (Vec3f 1 0 0)
      (1 / (2 * pi)) 128 1 (Vec3f pi pi pi) (Suc s) (Suc (Suc 0)) = Some (Inr (Vec3f pi pi pi, s + 128, 256))"
    using demo_loop_dark[of "Suc (Suc 0)" 1 127 f hp "Vec3f pi pi pi" "Suc s"] by simp
  show ?thesis
    apply (subst diffuse_loop.simps)
    apply (simp add: d1 d2 uniformSampleHemisphere_def Let_def c z rest)
    done
qed

lemma demo_floor_ray_first:
  assumes "vec_z dir < 0"
  shows "castRay demo_externals (Suc (Suc f)) orig dir s demo_options 0 0
         = Some (Inr (Vec3f (1 / 5 + pi / 128) (1 / 5 + pi / 128) (1 / 5 + pi / 128), s + 129, 256))"
proof -
  have i: "intersect demo_externals s orig dir = (Some (1, 0, (0, 0), floor_material), Suc s)"
    using assms by (simp add: demo_externals_def)
  have p: "\<And>hp. getSurfaceProperties demo_externals floor_material hp dir 0 (0, 0)
        = (Vec3f 0 0 1, (0, 0), Vec3f 1 1 1, Some floor_material)"
    by (simp add: demo_externals_def)
  have m: "\<not> self_luminous floor_material" "diffuse floor_material" "\<not> specular floor_material"
          "\<not> transparent floor_material" "kd floor_material = Vec3f 1 1 1"
    by (simp_all add: floor_material_def)
  have o: "\<not> maxDepth demo_options < 0" "backgroundColor demo_options = Vec3f (1 / 5) (1 / 5) (1 / 5)"
    by (simp_all add: demo_options_def)
  have d: "\<And>hp. castRay_diffuse demo_externals (demo_cast f hp) (Vec3f 0 0 1) floor_material
              (Vec3f (1 / 5) (1 / 5) (1 / 5)) (Suc s) 0
           = Some (Inr (Vec3f (1 / 5 + pi / 128) (1 / 5 + pi / 128) (1 / 5 + pi / 128), Suc s + 128, 256))"
    by (simp add: castRay_diffuse_def Let_def demo_frame demo_loop_first bind_result_simps m vec_defs)
  show ?thesis
    by (simp add: castRay.simps(2)[of _ "Suc f"] i p m o Let_def d[unfolded demo_cast_def] bind_result_simps
             del: castRay.simps)
qed

lemma demo_floor_ray_later:
  assumes "vec_z dir < 0" "1 \<le> g"
  shows "castRay demo_externals (Suc (Suc f)) orig dir s demo_options 0 g
         = Some (Inr (Vec3f (1 / 5) (1 / 5) (1 / 5), s + 129, g + 256))"
proof -
  have i: "intersect demo_externals s orig dir = (Some (1, 0, (0, 0), floor_material), Suc s)"
    using assms by (simp add: demo_externals_def)
  have p: "\<And>hp. getSurfaceProperties demo_externals floor_material hp dir 0 (0, 0)
        = (Vec3f 0 0 1, (0, 0), Vec3f 1 1 1, Some floor_material)"
    by (simp add: demo_externals_def)
  have m: "\<not> self_luminous floor_material" "diffuse floor_material" "\<not> specular floor_material"
          "\<not> transparent floor_material" "kd floor_material = Vec3f 1 1 1"
    by (simp_all add: floor_material_def)
  have o: "\<not> maxDepth demo_options < 0" "backgroundColor demo_options = Vec3f (1 / 5) (1 / 5) (1 / 5)"
    by (simp_all add: demo_options_def)
  have l: "\<And>hp. diffuse_loop demo_externals (demo_cast f hp) (Vec3f 0 0 1) (Vec3f 0 (- 1) 0) (Vec3f 1 0 0)
      (1 / (2 * pi)) 128 0 (Vec3f 0 0 0) (Suc s) g = Some (Inr (Vec3f 0 0 0, s + 129, g + 256))"
    using demo_loop_dark[of g 0 128 f _ "Vec3f 0 0 0" "Suc s"] assms by simp
  have d: "\<And>hp. castRay_diffuse demo_externals (demo_cast f hp) (Vec3f 0 0 1) floor_material
              (Vec3f (1 / 5) (1 / 5) (1 / 5)) (Suc s) g
           = Some (Inr (Vec3f (1 / 5) (1 / 5) (1 / 5), Suc s + 128, g + 256))"
    by (simp add: castRay_diffuse_def Let_def demo_frame l bind_result_simps m vec_defs)
  show ?thesis
    by (simp add: castRay.simps(2)[of _ "Suc f"] i p m o Let_def d[unfolded demo_cast_def] bind_result_simps
             del: castRay.simps)
qed

lemma demo_primary_ray_down: "vec_z (primary_ray demo_externals demo_options i j) < 0"
proof -
  have "\<And>x y. vec_z (divide_by (Vec3f x y (- 1)) (length_vec (Vec3f x y (- 1)))) < 0"
  proof -
    fix x y :: real
    have "0 \<le> x * x" "0 \<le> y * y" by simp_all
    then have "0 < x * x + y * y + 1" by linarith
    then have "0 < sqrt (x * x + y * y + 1)" by simp
    then show "vec_z (divide_by (Vec3f x y (- 1)) (length_vec (Vec3f x y (- 1)))) < 0"
      by (simp add: divide_by_def length_vec_def norm_sq_def)
  qed
  then show ?thesis
    by (simp add: primary_ray_def Let_def demo_externals_def)
qed

lemma demo_row_major: "row_major 2 1 = [(0, 0), (1, 0)]"
  by (simp add: row_major_def upto.simps)

lemma demo_trace:
  "trace_pixels demo_externals (Suc (Suc f)) demo_options orig [(0, 0), (1, 0)] 0 0
   = Some (Inr ([Vec3f (1 / 5 + pi / 128) (1 / 5 + pi / 128) (1 / 5 + pi / 128), Vec3f (1 / 5) (1 / 5) (1 / 5)],
               258, 512))"
  by (simp add: demo_floor_ray_first demo_floor_ray_later demo_primary_ray_down bind_result_simps
           del: castRay.simps)

lemma demo_render:
  "render demo_externals (Suc (Suc f)) demo_options 0 [Vec3f 0 0 0, Vec3f 0 0 0] 0
   = Some (Inr (258, [Vec3f (1 / 5 + pi / 128) (1 / 5 + pi / 128) (1 / 5 + pi / 128),
                      Vec3f (1 / 5) (1 / 5) (1 / 5)], 512))"
proof -
  have w: "width demo_options = 2" "height demo_options = 1" by (simp_all add: demo_options_def)
  have "nat (width demo_options) * nat (height demo_options) \<le> length [Vec3f 0 0 0, Vec3f 0 0 0]"
    by (simp add: w)
  from render_trace[OF this, of demo_externals "Suc (Suc f)" 0 0]
  show ?thesis
    by (simp add: w demo_row_major demo_trace bind_result_simps del: castRay.simps trace_pixels.simps)
qed

text \<open>
  C5, as the spec states it, says that no pixel's value depends on the computation of any
  other pixel. The generator is global and every diffuse hit draws from it, so the
  colour of a pixel depends on how many numbers the pixels before it have drawn. In the
  small scene, on a 2 by 1 image, the second pixel is rendered as the background colour
  \<open>(1/5, 1/5, 1/5)\<close>; the same primary ray cast alone from the initial scene and generator
  gives \<open>1/5 + \<pi>/128\<close> in every channel.
\<close>

theorem render_pixel_not_independent:
  "render demo_externals 2 demo_options 0 [Vec3f 0 0 0, Vec3f 0 0 0] 0
     = Some (Inr (258, [Vec3f (1 / 5 + pi / 128) (1 / 5 + pi / 128) (1 / 5 + pi / 128),
                        Vec3f (1 / 5) (1 / 5) (1 / 5)], 512))
   \<and> castRay demo_externals 2 (multVecMatrix demo_externals (cameraToWorld demo_options) (Vec3f_of 0))
        (primary_ray demo_externals demo_options 1 0) 0 demo_options 0 0
     = Some (Inr (Vec3f (1 / 5 + pi / 128) (1 / 5 + pi / 128) (1 / 5 + pi / 128), 129, 256))
   \<and> Vec3f (1 / 5 + pi / 128) (1 / 5 + pi / 128) (1 / 5 + pi / 128) \<noteq> Vec3f (1 / 5) (1 / 5) (1 / 5)"
proof -
  have two: "(2::nat) = Suc (Suc 0)" by simp
  have a: "render demo_externals 2 demo_options 0 [Vec3f 0 0 0, Vec3f 0 0 0] 0
     = Some (Inr (258, [Vec3f (1 / 5 + pi / 128) (1 / 5 + pi / 128) (1 / 5 + pi / 128),
                        Vec3f (1 / 5) (1 / 5) (1 / 5)], 512))"
    unfolding two by (rule demo_render)
  have b: "castRay demo_externals 2 (multVecMatrix demo_externals (cameraToWorld demo_options) (Vec3f_of 0))
        (primary_ray demo_externals demo_options 1 0) 0 demo_options 0 0
     = Some (Inr (Vec3f (1 / 5 + pi / 128) (1 / 5 + pi / 128) (1 / 5 + pi / 128), 129, 256))"
    unfolding two using demo_floor_ray_first[OF demo_primary_ray_down, of 0 _ 1 0 0] by simp
  have c: "Vec3f (1 / 5 + pi / 128) (1 / 5 + pi / 128) (1 / 5 + pi / 128) \<noteq> Vec3f (1 / 5) (1 / 5) (1 / 5)"
    by simp
  show ?thesis using a b c by blast
qed

text \<open>
  C5, amended. When the buffer has room for \<open>width * height\<close> colours, \<^verbatim>\<open>render\<close>
  computes exactly what \<open>trace_pixels\<close> computes over the row-major list of pixels: one
  depth-0 \<^verbatim>\<open>castRay\<close> per pixel on that pixel's primary ray, each call starting from
  the scene and the generator left by the call before it. The list has \<open>width * height\<close>
  entries and pixel \<open>(i, j)\<close> sits at index \<open>j * width + i\<close>; when every call returns a
  colour there are \<open>width * height\<close> colours, they fill the front of the buffer in that
  order, and the rest of the buffer is untouched.
\<close>

theorem render_writes_row_major:
  assumes "nat (width options) * nat (height options) \<le> length buffer"
  shows "render ext fuel options scene buffer generator =
           bind_result (trace_pixels ext fuel options (multVecMatrix ext (cameraToWorld options) (Vec3f_of 0))
                          (row_major (width options) (height options)) scene generator)
             (\<lambda>(colors, scene, generator).
                Some (Inr (scene, colors @ drop (length colors) buffer, generator)))
       \<and> length (row_major (width options) (height options)) = nat (width options) * nat (height options)
       \<and> (0 \<le> i \<and> i < width options \<and> 0 \<le> j \<and> j < height options \<longrightarrow>
            row_major (width options) (height options) ! (nat j * nat (width options) + nat i) = (i, j))
       \<and> (trace_pixels ext fuel options orig (row_major (width options) (height options)) scene generator
              = Some (Inr (colors, scene', generator')) \<longrightarrow>
            length colors = nat (width options) * nat (height options))"
proof -
  have a: "render ext fuel options scene buffer generator =
           bind_result (trace_pixels ext fuel options (multVecMatrix ext (cameraToWorld options) (Vec3f_of 0))
                          (row_major (width options) (height options)) scene generator)
             (\<lambda>(colors, scene, generator).
                Some (Inr (scene, colors @ drop (length colors) buffer, generator)))"
    using assms by (rule render_trace)
  have b: "0 \<le> i \<and> i < width options \<and> 0 \<le> j \<and> j < height options \<longrightarrow>
            row_major (width options) (height options) ! (nat j * nat (width options) + nat i) = (i, j)"
    by (simp add: row_major_nth)
  have c: "trace_pixels ext fuel options orig (row_major (width options) (height options)) scene generator
              = Some (Inr (colors, scene', generator')) \<longrightarrow>
            length colors = nat (width options) * nat (height options)"
    using trace_pixels_length[of ext fuel options orig "row_major (width options) (height options)"
                                 scene generator colors scene' generator']
    by (simp add: row_major_length)
  show ?thesis using a b c row_major_length by blast
qed

theorem render_writes_row_major_witness:
  "nat (width demo_options) * nat (height demo_options) \<le> length [Vec3f 0 0 0, Vec3f 0 0 0]
   \<and> (0::int) \<le> 1 \<and> 1 < width demo_options \<and> (0::int) \<le> 0 \<and> 0 < height demo_options
   \<and> row_major (width demo_options) (height demo_options) ! (nat 0 * nat (width demo_options) + nat 1) = (1, 0)
   \<and> trace_pixels demo_externals 2 demo_options (Vec3f 0 0 0)
        (row_major (width demo_options) (height demo_options)) 0 0
        = Some (Inr ([Vec3f (1 / 5 + pi / 128) (1 / 5 + pi / 128) (1 / 5 + pi / 128),
                      Vec3f (1 / 5) (1 / 5) (1 / 5)], 258, 512))
   \<and> length [Vec3f (1 / 5 + pi / 128) (1 / 5 + pi / 128) (1 / 5 + pi / 128), Vec3f (1 / 5) (1 / 5) (1 / 5)]
        = nat (width demo_options) * nat (height demo_options)
   \<and> render demo_externals 2 demo_options 0 [Vec3f 0 0 0, Vec3f 0 0 0] 0
        = bind_result (trace_pixels demo_externals 2 demo_options
                          (multVecMatrix demo_externals (cameraToWorld demo_options) (Vec3f_of 0))
                          (row_major (width demo_options) (height demo_options)) 0 0)
             (\<lambda>(colors, scene, generator).
                Some (Inr (scene, colors @ drop (length colors) [Vec3f 0 0 0, Vec3f 0 0 0], generator)))"
proof -
  have two: "(2::nat) = Suc (Suc 0)" by simp
  have w: "width demo_options = 2" "height demo_options = 1" by (simp_all add: demo_options_def)
  have room: "nat (width demo_options) * nat (height demo_options) \<le> length [Vec3f 0 0 0, Vec3f 0 0 0]"
    by (simp add: w)
  have t: "trace_pixels demo_externals 2 demo_options (Vec3f 0 0 0)
        (row_major (width demo_options) (height demo_options)) 0 0
        = Some (Inr ([Vec3f (1 / 5 + pi / 128) (1 / 5 + pi / 128) (1 / 5 + pi / 128),
                      Vec3f (1 / 5) (1 / 5) (1 / 5)], 258, 512))"
    unfolding two w demo_row_major by (rule demo_trace)
  have i: "(0::int) \<le> 1 \<and> 1 < width demo_options \<and> (0::int) \<le> 0 \<and> 0 < height demo_options"
    by (simp add: w)
  from render_writes_row_major [OF room, where ext = demo_externals and fuel = 2 and scene = 0
         and generator = 0 and i = 1 and j = 0 and orig = "Vec3f 0 0 0"
         and colors = "[Vec3f (1 / 5 + pi / 128) (1 / 5 + pi / 128) (1 / 5 + pi / 128),
                        Vec3f (1 / 5) (1 / 5) (1 / 5)]"
         and scene' = 258 and generator' = 512] room t i
  show ?thesis by blast
qed

end
